theory Spec2Isabelle
  imports Complex_Main "HOL-Library.AList"
begin

section \<open>Python values, dictionaries and errors\<close>

text \<open>
  The generator builds each record as a Python dictionary with string keys whose values
  are integers, strings or floats. A dictionary keeps its insertion order, which
  \<open>write_csv\<close> reads back through \<open>keys()\<close>, so a dictionary is an association list.
  An unguarded lookup of a missing key raises \<open>KeyError\<close>; multiplying a string by a
  float raises \<open>TypeError\<close>; the CSV writer raises \<open>ValueError\<close> for a row with a field
  the header does not have.

  Floats are idealised as real numbers: \<open>a + (b - a) * u\<close>, the product with \<open>1.2\<close> and
  \<open>round(x, 2)\<close> are computed exactly, not in IEEE double precision.
\<close>

datatype val = IntV int | StrV string | FloatV real

datatype error = KeyError val | TypeError | ValueError

type_synonym pydict = "(string \<times> val) list"

definition bindE :: "error + 'a \<Rightarrow> ('a \<Rightarrow> error + 'b) \<Rightarrow> error + 'b" where
  "bindE r f = (case r of Inl e \<Rightarrow> Inl e | Inr x \<Rightarrow> f x)"

definition getitem :: "pydict \<Rightarrow> string \<Rightarrow> error + val" where
  "getitem d k = (case map_of d k of None \<Rightarrow> Inl (KeyError (StrV k)) | Some v \<Rightarrow> Inr v)"

definition setitem :: "pydict \<Rightarrow> string \<Rightarrow> val \<Rightarrow> pydict" where
  "setitem d k v = AList.update k v d"

definition keys :: "pydict \<Rightarrow> string list" where
  "keys d = map fst d"

definition times_float :: "val \<Rightarrow> real \<Rightarrow> error + real" where
  "times_float v y =
     (case v of IntV i \<Rightarrow> Inr (real_of_int i * y)
              | FloatV x \<Rightarrow> Inr (x * y)
              | StrV s \<Rightarrow> Inl TypeError)"

text \<open>\<open>round(x, 2)\<close>: the nearest multiple of 0.01, a tie going to the even one.\<close>

definition round2 :: "real \<Rightarrow> real" where
  "round2 x =
     (let y = x * 100; f = \<lfloor>y\<rfloor>; d = y - real_of_int f
      in real_of_int (if d < 1 / 2 then f
                      else if 1 / 2 < d then f + 1
                      else if even f then f else f + 1) / 100)"

section \<open>The shared pseudo-random source\<close>

text \<open>
  The module \<open>random\<close> belongs to Python's standard library, not to the repository. Its
  state after \<open>random.seed(42)\<close> is taken as a parameter: an infinite sequence of raw
  draws and the position of the next one. Each call of \<open>choice\<close>, \<open>randint\<close> or
  \<open>uniform\<close> consumes one raw draw and maps it into the range of the call, so every
  sequence of results the library can return is the image of some sequence of draws.
\<close>

record rng =
  draws :: "nat \<Rightarrow> nat"
  pos :: nat

definition randbelow :: "nat \<Rightarrow> rng \<Rightarrow> nat \<times> rng" where
  "randbelow n g = (draws g (pos g) mod n, g\<lparr>pos := pos g + 1\<rparr>)"

text \<open>Every call of \<open>choice\<close> in the generator is on a non-empty literal list.\<close>

definition choice :: "'a list \<Rightarrow> rng \<Rightarrow> 'a \<times> rng" where
  "choice xs g = (let (i, g') = randbelow (length xs) g in (xs ! i, g'))"

text \<open>\<open>randint(a, b)\<close> with \<open>a \<le> b\<close> at every call of the generator.\<close>

definition randint :: "int \<Rightarrow> int \<Rightarrow> rng \<Rightarrow> int \<times> rng" where
  "randint a b g = (let (i, g') = randbelow (nat (b - a + 1)) g in (a + int i, g'))"

text \<open>\<open>random()\<close> returns a multiple of \<open>2\<^sup>-\<^sup>5\<^sup>3\<close> in the half-open unit interval.\<close>

definition random_unit :: "rng \<Rightarrow> real \<times> rng" where
  "random_unit g = (real (draws g (pos g) mod 2 ^ 53) / 2 ^ 53, g\<lparr>pos := pos g + 1\<rparr>)"

definition uniform :: "real \<Rightarrow> real \<Rightarrow> rng \<Rightarrow> real \<times> rng" where
  "uniform a b g = (let (u, g') = random_unit g in (a + (b - a) * u, g'))"

section \<open>Sample data pools\<close>

definition FIRST_NAMES :: "string list" where
  "FIRST_NAMES =
    [''James'', ''Mary'', ''John'', ''Patricia'', ''Robert'', ''Jennifer'', ''Michael'', ''Linda'',
     ''William'', ''Elizabeth'', ''David'', ''Barbara'', ''Richard'', ''Susan'', ''Joseph'', ''Jessica'',
     ''Thomas'', ''Sarah'', ''Charles'', ''Karen'', ''Christopher'', ''Nancy'', ''Daniel'', ''Lisa'',
     ''Matthew'', ''Betty'', ''Anthony'', ''Margaret'', ''Mark'', ''Sandra'']"

definition LAST_NAMES :: "string list" where
  "LAST_NAMES =
    [''Smith'', ''Johnson'', ''Williams'', ''Brown'', ''Jones'', ''Garcia'', ''Miller'', ''Davis'',
     ''Rodriguez'', ''Martinez'', ''Hernandez'', ''Lopez'', ''Gonzalez'', ''Wilson'', ''Anderson'',
     ''Thomas'', ''Taylor'', ''Moore'', ''Jackson'', ''Martin'', ''Lee'', ''Perez'', ''Thompson'',
     ''White'', ''Harris'', ''Sanchez'', ''Clark'', ''Ramirez'', ''Lewis'', ''Robinson'']"

definition CITIES :: "string list" where
  "CITIES =
    [''New York'', ''Los Angeles'', ''Chicago'', ''Houston'', ''Phoenix'', ''Philadelphia'',
     ''San Antonio'', ''San Diego'', ''Dallas'', ''San Jose'', ''Austin'', ''Jacksonville'',
     ''Fort Worth'', ''Columbus'', ''Charlotte'', ''Seattle'', ''Denver'', ''Boston'']"

definition STATES :: "string list" where
  "STATES =
    [''NY'', ''CA'', ''IL'', ''TX'', ''AZ'', ''PA'', ''TX'', ''CA'', ''TX'', ''CA'',
     ''TX'', ''FL'', ''TX'', ''OH'', ''NC'', ''WA'', ''CO'', ''MA'']"

definition PRODUCT_CATEGORIES :: "string list" where
  "PRODUCT_CATEGORIES =
    [''Electronics'', ''Clothing'', ''Home & Garden'', ''Sports'', ''Books'', ''Toys'']"

definition PRODUCT_ADJECTIVES :: "string list" where
  "PRODUCT_ADJECTIVES =
    [''Premium'', ''Basic'', ''Pro'', ''Ultra'', ''Eco'', ''Smart'', ''Classic'', ''Modern'']"

definition PRODUCT_NOUNS :: "string list" where
  "PRODUCT_NOUNS =
    [''Widget'', ''Gadget'', ''Device'', ''Tool'', ''Kit'', ''Set'', ''Pack'', ''Bundle'']"

section \<open>Formatting\<close>

definition digit_char :: "nat \<Rightarrow> char" where
  "digit_char n = ''0123456789'' ! n"

fun str_nat :: "nat \<Rightarrow> string" where
  "str_nat n = (if n < 10 then [digit_char n] else str_nat (n div 10) @ [digit_char (n mod 10)])"

declare str_nat.simps [simp del]

definition str_int :: "int \<Rightarrow> string" where
  "str_int i = (if i < 0 then CHR ''-'' # str_nat (nat (- i)) else str_nat (nat i))"

text \<open>The format specifications \<open>04d\<close>, \<open>03d\<close> and \<open>%H\<close>: zero padding of a natural number.\<close>

definition zero_pad :: "nat \<Rightarrow> nat \<Rightarrow> string" where
  "zero_pad w n = replicate (w - length (str_nat n)) CHR ''0'' @ str_nat n"

definition lower_char :: "char \<Rightarrow> char" where
  "lower_char c =
     (case map_of (zip ''ABCDEFGHIJKLMNOPQRSTUVWXYZ'' ''abcdefghijklmnopqrstuvwxyz'') c of
        Some l \<Rightarrow> l | None \<Rightarrow> c)"

definition lower :: "string \<Rightarrow> string" where
  "lower s = map lower_char s"

text \<open>
  A \<open>datetime\<close> of the run is a point of one day: the date and the second of the day.
  The generator adds at most four and a half hours to ten o'clock, so adding a
  \<open>timedelta\<close> never leaves the day; the fields of the date are kept as they are.
\<close>

record datetime =
  year :: nat
  month :: nat
  day :: nat
  second_of_day :: nat

definition plus_minutes :: "datetime \<Rightarrow> int \<Rightarrow> datetime" where
  "plus_minutes dt m = dt\<lparr>second_of_day := second_of_day dt + 60 * nat m\<rparr>"

definition plus_hours :: "datetime \<Rightarrow> int \<Rightarrow> datetime" where
  "plus_hours dt h = dt\<lparr>second_of_day := second_of_day dt + 3600 * nat h\<rparr>"

definition format_timestamp :: "datetime \<Rightarrow> string" where
  "format_timestamp dt =
     zero_pad 4 (year dt) @ ''-'' @ zero_pad 2 (month dt) @ ''-'' @ zero_pad 2 (day dt) @ '' '' @
     zero_pad 2 (second_of_day dt div 3600) @ '':'' @
     zero_pad 2 (second_of_day dt mod 3600 div 60) @ '':'' @
     zero_pad 2 (second_of_day dt mod 60)"

section \<open>Field synthesizers\<close>

definition generate_email :: "string \<Rightarrow> string \<Rightarrow> int \<Rightarrow> rng \<Rightarrow> string \<times> rng" where
  "generate_email first_name last_name customer_id g =
     (let domains = [''gmail.com'', ''yahoo.com'', ''outlook.com'', ''hotmail.com'', ''company.com''];
          (domain, g1) = choice domains g
      in (lower first_name @ ''.'' @ lower last_name @ str_int customer_id @ ''@'' @ domain, g1))"

definition generate_phone :: "rng \<Rightarrow> string \<times> rng" where
  "generate_phone g =
     (let (a, g1) = randint 200 999 g;
          (b, g2) = randint 200 999 g1;
          (c, g3) = randint 1000 9999 g2
      in (''('' @ str_int a @ '') '' @ str_int b @ ''-'' @ str_int c, g3))"

section \<open>Scenario A: customers with a timestamp column\<close>

definition generate_customer_record :: "int \<Rightarrow> datetime \<Rightarrow> rng \<Rightarrow> pydict \<times> rng" where
  "generate_customer_record customer_id timestamp g =
     (let (first_name, g1) = choice FIRST_NAMES g;
          (last_name, g2) = choice LAST_NAMES g1;
          (city_idx, g3) = randint 0 (int (length CITIES) - 1) g2;
          (email, g4) = generate_email first_name last_name customer_id g3;
          (phone, g5) = generate_phone g4;
          (credit, g6) = uniform 1000 50000 g5
      in ([(''customer_id'', IntV customer_id),
           (''first_name'', StrV first_name),
           (''last_name'', StrV last_name),
           (''email'', StrV email),
           (''phone'', StrV phone),
           (''city'', StrV (CITIES ! nat city_idx)),
           (''state'', StrV (STATES ! nat city_idx)),
           (''credit_limit'', FloatV (round2 credit)),
           (''last_updated_ts'', StrV (format_timestamp timestamp))], g6))"

section \<open>Objects, the snapshot and the written files\<close>

text \<open>
  A record of the snapshot is a mutable dictionary object: the snapshot and the list
  of a delta hold references to it, and a mutation through the snapshot is seen through
  the list. The state of a run is the store of objects, the random source and the
  written files (a path and the text written to it). Directories and the standard
  output are not modelled.
\<close>

record world =
  objs :: "nat \<Rightarrow> pydict"
  next_addr :: nat
  rand :: rng
  files :: "string \<rightharpoonup> string"

definition new_object :: "pydict \<Rightarrow> world \<Rightarrow> nat \<times> world" where
  "new_object d w =
     (next_addr w, w\<lparr>objs := (objs w)(next_addr w := d), next_addr := next_addr w + 1\<rparr>)"

type_synonym snapshot = "(int \<times> nat) list"

text \<open>\<open>snapshot[k]\<close>, unguarded.\<close>

definition snapshot_get :: "snapshot \<Rightarrow> int \<Rightarrow> error + nat" where
  "snapshot_get m k = (case map_of m k of None \<Rightarrow> Inl (KeyError (IntV k)) | Some a \<Rightarrow> Inr a)"

text \<open>\<open>snapshot[k][field]\<close> and \<open>snapshot[k][field] = v\<close>.\<close>

definition get_field :: "snapshot \<Rightarrow> int \<Rightarrow> string \<Rightarrow> world \<Rightarrow> error + val" where
  "get_field m k field w = bindE (snapshot_get m k) (\<lambda>a. getitem (objs w a) field)"

definition set_field :: "snapshot \<Rightarrow> int \<Rightarrow> string \<Rightarrow> val \<Rightarrow> world \<Rightarrow> error + world" where
  "set_field m k field v w =
     bindE (snapshot_get m k) (\<lambda>a. Inr (w\<lparr>objs := (objs w)(a := setitem (objs w a) field v)\<rparr>))"

section \<open>The CSV writer\<close>

text \<open>
  \<open>csv.DictWriter\<close> belongs to the standard library. A row is the list of the values
  of the header's fields (the empty string for a missing one); a dictionary with a key
  outside the header raises \<open>ValueError\<close>. A value is written as \<open>str\<close> gives it, quoted
  when it holds a comma, a double quote or a line break; a row ends with CR LF.

  \<open>float_repr\<close> is the \<open>repr\<close> of a float with at most two decimals, which is what
  \<open>round(x, 2)\<close> returns: the shortest decimal numeral that reads back as the float, with
  at least one digit after the point.
\<close>

definition float_repr :: "real \<Rightarrow> string" where
  "float_repr x =
     (let c = nat \<lfloor>\<bar>x\<bar> * 100\<rfloor>;
          frac = (if c mod 10 = 0 then [digit_char (c mod 100 div 10)]
                  else [digit_char (c mod 100 div 10), digit_char (c mod 10)])
      in (if x < 0 then ''-'' else []) @ str_nat (c div 100) @ ''.'' @ frac)"

definition cell_text :: "val \<Rightarrow> string" where
  "cell_text v = (case v of IntV i \<Rightarrow> str_int i | StrV s \<Rightarrow> s | FloatV x \<Rightarrow> float_repr x)"

definition needs_quotes :: "string \<Rightarrow> bool" where
  "needs_quotes s = (\<exists>c \<in> set s. c \<in> {CHR '','', CHR 0x22, CHR 0x0D, CHR 0x0A})"

definition quote_field :: "string \<Rightarrow> string" where
  "quote_field s =
     (if needs_quotes s
      then CHR 0x22 # concat (map (\<lambda>c. if c = CHR 0x22 then [c, c] else [c]) s) @ [CHR 0x22]
      else s)"

fun join_fields :: "string list \<Rightarrow> string" where
  "join_fields [] = []"
| "join_fields [s] = s"
| "join_fields (s # t # ss) = s @ '','' @ join_fields (t # ss)"

definition csv_line :: "val list \<Rightarrow> string" where
  "csv_line vs =
     (let fields = map cell_text vs
      in (if fields = [[]] then [CHR 0x22, CHR 0x22] else join_fields (map quote_field fields))
         @ [CHR 0x0D, CHR 0x0A])"

definition csv_text :: "val list list \<Rightarrow> string" where
  "csv_text rows = concat (map csv_line rows)"

definition dict_to_list :: "string list \<Rightarrow> pydict \<Rightarrow> error + val list" where
  "dict_to_list fieldnames rowdict =
     (if \<exists>k \<in> set (keys rowdict). k \<notin> set fieldnames then Inl ValueError
      else Inr (map (\<lambda>k. case map_of rowdict k of Some v \<Rightarrow> v | None \<Rightarrow> StrV []) fieldnames))"

fun dicts_to_lists :: "string list \<Rightarrow> pydict list \<Rightarrow> error + val list list" where
  "dicts_to_lists fieldnames [] = Inr []"
| "dicts_to_lists fieldnames (d # ds) =
     bindE (dict_to_list fieldnames d) (\<lambda>r.
     bindE (dicts_to_lists fieldnames ds) (\<lambda>rs. Inr (r # rs)))"

text \<open>
  \<open>write_csv\<close> takes the records as they are at the moment of the call. With no record
  it returns before the file is opened. The text a failed write leaves behind is not
  modelled: the error ends the run.
\<close>

definition write_csv :: "string \<Rightarrow> pydict list \<Rightarrow> (string \<rightharpoonup> string) \<Rightarrow> error + (string \<rightharpoonup> string)" where
  "write_csv filepath records_list fs =
     (if records_list = [] then Inr fs
      else let fieldnames = keys (hd records_list)
           in bindE (dicts_to_lists fieldnames records_list) (\<lambda>rows.
              Inr (fs(filepath \<mapsto> csv_text (map StrV fieldnames # rows)))))"

text \<open>Writing the objects that a list of references points to.\<close>

definition write_records :: "string \<Rightarrow> nat list \<Rightarrow> world \<Rightarrow> error + world" where
  "write_records filepath refs w =
     bindE (write_csv filepath (map (objs w) refs) (files w)) (\<lambda>fs. Inr (w\<lparr>files := fs\<rparr>))"

section \<open>The dataset evolver of scenario A\<close>

definition py_range :: "int \<Rightarrow> int \<Rightarrow> int list" where
  "py_range a b = [a..b - 1]"

definition SCENARIO_WITH_TS_DIR :: string where
  "SCENARIO_WITH_TS_DIR = ''sample-data/scenario_with_timestamp''"

definition SCENARIO_NO_TS_DIR :: string where
  "SCENARIO_NO_TS_DIR = ''sample-data/scenario_without_timestamp''"

definition path_join :: "string \<Rightarrow> string \<Rightarrow> string" where
  "path_join dir name = dir @ ''/'' @ name"

text \<open>The loop of the initial file: \<open>for i in range(1, 21)\<close>.\<close>

fun initial_customers_loop :: "int list \<Rightarrow> datetime \<Rightarrow> snapshot \<Rightarrow> world \<Rightarrow> snapshot \<times> world" where
  "initial_customers_loop [] base_time customers w = (customers, w)"
| "initial_customers_loop (i # is) base_time customers w =
     (let (m, g1) = randint 0 60 (rand w);
          timestamp = plus_minutes base_time m;
          (record, g2) = generate_customer_record i timestamp g1;
          (a, w1) = new_object record (w\<lparr>rand := g2\<rparr>)
      in initial_customers_loop is base_time (AList.update i a customers) w1)"

text \<open>The loops that add the new customers of a delta (identifiers 21 to 25, then 26 to 28).\<close>

fun new_customers_loop ::
  "int list \<Rightarrow> datetime \<Rightarrow> snapshot \<Rightarrow> nat list \<Rightarrow> world \<Rightarrow> snapshot \<times> nat list \<times> world" where
  "new_customers_loop [] delta_time customers delta_records w = (customers, delta_records, w)"
| "new_customers_loop (i # is) delta_time customers delta_records w =
     (let (m, g1) = randint 0 30 (rand w);
          timestamp = plus_minutes delta_time m;
          (record, g2) = generate_customer_record i timestamp g1;
          (a, w1) = new_object record (w\<lparr>rand := g2\<rparr>)
      in new_customers_loop is delta_time (AList.update i a customers) (delta_records @ [a]) w1)"

text \<open>The loop over \<open>[3, 7, 15]\<close>: the credit limit times 1.2 and a new timestamp.\<close>

fun modify_customers_delta1 ::
  "int list \<Rightarrow> datetime \<Rightarrow> snapshot \<Rightarrow> nat list \<Rightarrow> world \<Rightarrow> error + nat list \<times> world" where
  "modify_customers_delta1 [] delta1_time customers delta1_records w = Inr (delta1_records, w)"
| "modify_customers_delta1 (cid # cids) delta1_time customers delta1_records w =
     (let (m, g1) = randint 0 30 (rand w);
          timestamp = plus_minutes delta1_time m;
          w1 = w\<lparr>rand := g1\<rparr>
      in bindE (get_field customers cid ''credit_limit'' w1) (\<lambda>v.
         bindE (times_float v (12 / 10)) (\<lambda>x.
         bindE (set_field customers cid ''credit_limit'' (FloatV (round2 x)) w1) (\<lambda>w2.
         bindE (set_field customers cid ''last_updated_ts'' (StrV (format_timestamp timestamp)) w2) (\<lambda>w3.
         bindE (snapshot_get customers cid) (\<lambda>a.
         modify_customers_delta1 cids delta1_time customers (delta1_records @ [a]) w3))))))"

text \<open>The loop over \<open>[1, 10, 21, 25]\<close>: a new city, a new phone and a new timestamp.\<close>

fun modify_customers_delta2 ::
  "int list \<Rightarrow> datetime \<Rightarrow> snapshot \<Rightarrow> nat list \<Rightarrow> world \<Rightarrow> error + nat list \<times> world" where
  "modify_customers_delta2 [] delta2_time customers delta2_records w = Inr (delta2_records, w)"
| "modify_customers_delta2 (cid # cids) delta2_time customers delta2_records w =
     (let (m, g1) = randint 0 30 (rand w);
          timestamp = plus_minutes delta2_time m;
          (city, g2) = choice CITIES g1
      in bindE (set_field customers cid ''city'' (StrV city) (w\<lparr>rand := g2\<rparr>)) (\<lambda>w1.
         let (phone, g3) = generate_phone (rand w1)
         in bindE (set_field customers cid ''phone'' (StrV phone) (w1\<lparr>rand := g3\<rparr>)) (\<lambda>w2.
            bindE (set_field customers cid ''last_updated_ts'' (StrV (format_timestamp timestamp)) w2) (\<lambda>w3.
            bindE (snapshot_get customers cid) (\<lambda>a.
            modify_customers_delta2 cids delta2_time customers (delta2_records @ [a]) w3)))))"

definition generate_customers_with_timestamp :: "world \<Rightarrow> error + world" where
  "generate_customers_with_timestamp w =
     (let base_time = \<lparr>year = 2025, month = 1, day = 1, second_of_day = 10 * 3600\<rparr>;
          (customers, w1) = initial_customers_loop (py_range 1 21) base_time [] w;
          file1_path = path_join SCENARIO_WITH_TS_DIR ''customers_with_ts_initial.csv''
      in bindE (write_records file1_path (map snd customers) w1) (\<lambda>w2.
         let delta1_time = plus_hours base_time 2;
             (customers1, new1, w3) = new_customers_loop (py_range 21 26) delta1_time customers [] w2
         in bindE (modify_customers_delta1 [3, 7, 15] delta1_time customers1 new1 w3) (\<lambda>(delta1_records, w4).
            let file2_path = path_join SCENARIO_WITH_TS_DIR ''customers_with_ts_delta1.csv''
            in bindE (write_records file2_path delta1_records w4) (\<lambda>w5.
               let delta2_time = plus_hours base_time 4;
                   (customers2, new2, w6) = new_customers_loop (py_range 26 29) delta2_time customers1 [] w5
               in bindE (modify_customers_delta2 [1, 10, 21, 25] delta2_time customers2 new2 w6) (\<lambda>(delta2_records, w7).
                  let file3_path = path_join SCENARIO_WITH_TS_DIR ''customers_with_ts_delta2.csv''
                  in write_records file3_path delta2_records w7)))))"

section \<open>Scenario B: products without a timestamp column\<close>

text \<open>The identifiers are positive, so \<open>04d\<close> pads the digits of a natural number.\<close>

definition generate_product_record :: "int \<Rightarrow> rng \<Rightarrow> pydict \<times> rng" where
  "generate_product_record product_id g =
     (let (category, g1) = choice PRODUCT_CATEGORIES g;
          (adjective, g2) = choice PRODUCT_ADJECTIVES g1;
          (noun, g3) = choice PRODUCT_NOUNS g2;
          name = adjective @ '' '' @ noun @ '' '' @ str_int product_id;
          (price, g4) = uniform (999 / 100) (99999 / 100) g3;
          (stock, g5) = randint 0 500 g4;
          (supplier, g6) = randint 1 20 g5;
          (active, g7) = choice [''true'', ''true'', ''true'', ''false''] g6
      in ([(''product_id'', StrV (''PROD-'' @ zero_pad 4 (nat product_id))),
           (''product_name'', StrV name),
           (''category'', StrV category),
           (''price'', FloatV (round2 price)),
           (''stock_quantity'', IntV stock),
           (''supplier_id'', StrV (''SUP-'' @ zero_pad 3 (nat supplier))),
           (''is_active'', StrV active)], g7))"

text \<open>The loop of the initial file: \<open>for i in range(1, 26)\<close>.\<close>

fun initial_products_loop :: "int list \<Rightarrow> snapshot \<Rightarrow> world \<Rightarrow> snapshot \<times> world" where
  "initial_products_loop [] products w = (products, w)"
| "initial_products_loop (i # is) products w =
     (let (record, g1) = generate_product_record i (rand w);
          (a, w1) = new_object record (w\<lparr>rand := g1\<rparr>)
      in initial_products_loop is (AList.update i a products) w1)"

text \<open>The loops that add the new products of a delta (identifiers 26 to 30, then 31 to 34).\<close>

fun new_products_loop ::
  "int list \<Rightarrow> snapshot \<Rightarrow> nat list \<Rightarrow> world \<Rightarrow> snapshot \<times> nat list \<times> world" where
  "new_products_loop [] products delta_records w = (products, delta_records, w)"
| "new_products_loop (i # is) products delta_records w =
     (let (record, g1) = generate_product_record i (rand w);
          (a, w1) = new_object record (w\<lparr>rand := g1\<rparr>)
      in new_products_loop is (AList.update i a products) (delta_records @ [a]) w1)"

text \<open>The loop over \<open>[2, 8, 15, 22]\<close>: a rescaled price and a new stock quantity.\<close>

fun modify_products_delta1 ::
  "int list \<Rightarrow> snapshot \<Rightarrow> nat list \<Rightarrow> world \<Rightarrow> error + nat list \<times> world" where
  "modify_products_delta1 [] products delta1_records w = Inr (delta1_records, w)"
| "modify_products_delta1 (pid # pids) products delta1_records w =
     bindE (get_field products pid ''price'' w) (\<lambda>v.
     let (factor, g1) = uniform (8 / 10) (13 / 10) (rand w)
     in bindE (times_float v factor) (\<lambda>x.
        bindE (set_field products pid ''price'' (FloatV (round2 x)) (w\<lparr>rand := g1\<rparr>)) (\<lambda>w1.
        let (stock, g2) = randint 0 500 (rand w1)
        in bindE (set_field products pid ''stock_quantity'' (IntV stock) (w1\<lparr>rand := g2\<rparr>)) (\<lambda>w2.
           bindE (snapshot_get products pid) (\<lambda>a.
           modify_products_delta1 pids products (delta1_records @ [a]) w2)))))"

text \<open>The loop over \<open>[1, 5, 12, 26, 28, 30]\<close>: price, stock quantity and active flag.\<close>

fun modify_products_delta2 ::
  "int list \<Rightarrow> snapshot \<Rightarrow> nat list \<Rightarrow> world \<Rightarrow> error + nat list \<times> world" where
  "modify_products_delta2 [] products delta2_records w = Inr (delta2_records, w)"
| "modify_products_delta2 (pid # pids) products delta2_records w =
     bindE (get_field products pid ''price'' w) (\<lambda>v.
     let (factor, g1) = uniform (9 / 10) (12 / 10) (rand w)
     in bindE (times_float v factor) (\<lambda>x.
        bindE (set_field products pid ''price'' (FloatV (round2 x)) (w\<lparr>rand := g1\<rparr>)) (\<lambda>w1.
        let (stock, g2) = randint 0 500 (rand w1)
        in bindE (set_field products pid ''stock_quantity'' (IntV stock) (w1\<lparr>rand := g2\<rparr>)) (\<lambda>w2.
           let (active, g3) = choice [''true'', ''false''] (rand w2)
           in bindE (set_field products pid ''is_active'' (StrV active) (w2\<lparr>rand := g3\<rparr>)) (\<lambda>w3.
              bindE (snapshot_get products pid) (\<lambda>a.
              modify_products_delta2 pids products (delta2_records @ [a]) w3))))))"

definition generate_products_without_timestamp :: "world \<Rightarrow> error + world" where
  "generate_products_without_timestamp w =
     (let (products, w1) = initial_products_loop (py_range 1 26) [] w;
          file1_path = path_join SCENARIO_NO_TS_DIR ''products_no_ts_initial.csv''
      in bindE (write_records file1_path (map snd products) w1) (\<lambda>w2.
         let (products1, new1, w3) = new_products_loop (py_range 26 31) products [] w2
         in bindE (modify_products_delta1 [2, 8, 15, 22] products1 new1 w3) (\<lambda>(delta1_records, w4).
            let file2_path = path_join SCENARIO_NO_TS_DIR ''products_no_ts_delta1.csv''
            in bindE (write_records file2_path delta1_records w4) (\<lambda>w5.
               let (products2, new2, w6) = new_products_loop (py_range 31 35) products1 [] w5
               in bindE (modify_products_delta2 [1, 5, 12, 26, 28, 30] products2 new2 w6) (\<lambda>(delta2_records, w7).
                  let file3_path = path_join SCENARIO_NO_TS_DIR ''products_no_ts_delta2.csv''
                  in write_records file3_path delta2_records w7)))))"

section \<open>The orchestrator\<close>

text \<open>
  \<open>main\<close> runs scenario A, then scenario B, on the one random source. \<open>run\<close> is a run
  of the program: a fresh store of objects, the random source as \<open>random.seed(42)\<close>
  leaves it, and the files found on the disk; it gives the files left on the disk.
\<close>

definition main :: "world \<Rightarrow> error + world" where
  "main w = bindE (generate_customers_with_timestamp w) generate_products_without_timestamp"

definition run :: "rng \<Rightarrow> (string \<rightharpoonup> string) \<Rightarrow> error + (string \<rightharpoonup> string)" where
  "run g fs =
     bindE (main \<lparr>objs = (\<lambda>a. []), next_addr = 0, rand = g, files = fs\<rparr>) (\<lambda>w. Inr (files w))"

section \<open>What a run writes, record by record\<close>

text \<open>
  The definitions of this section name the parts of a run for the statements below:
  the random source after \<open>k\<close> more draws, the record a loop builds from a given state of
  the source, the record a modification leaves, and the list of records behind each of
  the six files. That the generator writes exactly these records is proved, not assumed.
\<close>

definition advance :: "nat \<Rightarrow> rng \<Rightarrow> rng" where
  "advance k g = g\<lparr>pos := pos g + k\<rparr>"

definition row_of :: "string list \<Rightarrow> pydict \<Rightarrow> val list" where
  "row_of cols d = map (\<lambda>k. case map_of d k of Some v \<Rightarrow> v | None \<Rightarrow> StrV []) cols"

definition float_field :: "pydict \<Rightarrow> string \<Rightarrow> real" where
  "float_field d k =
     (case map_of d k of Some (FloatV x) \<Rightarrow> x | Some (IntV i) \<Rightarrow> real_of_int i | _ \<Rightarrow> 0)"

definition customer_columns :: "string list" where
  "customer_columns =
     [''customer_id'', ''first_name'', ''last_name'', ''email'', ''phone'', ''city'', ''state'',
      ''credit_limit'', ''last_updated_ts'']"

definition product_columns :: "string list" where
  "product_columns =
     [''product_id'', ''product_name'', ''category'', ''price'', ''stock_quantity'',
      ''supplier_id'', ''is_active'']"

definition base_time :: datetime where
  "base_time = \<lparr>year = 2025, month = 1, day = 1, second_of_day = 10 * 3600\<rparr>"

text \<open>One pass of a loop that adds a customer: the draw of the minutes, then the record.\<close>

definition built_customer :: "int \<Rightarrow> datetime \<Rightarrow> int \<Rightarrow> rng \<Rightarrow> pydict" where
  "built_customer hi t i g =
     fst (generate_customer_record i (plus_minutes t (fst (randint 0 hi g))) (advance 1 g))"

definition built_product :: "int \<Rightarrow> rng \<Rightarrow> pydict" where
  "built_product i g = fst (generate_product_record i g)"

text \<open>One pass of each of the four loops that modify records.\<close>

definition customer_delta1_update :: "datetime \<Rightarrow> pydict \<Rightarrow> rng \<Rightarrow> pydict" where
  "customer_delta1_update t d g =
     setitem
       (setitem d ''credit_limit'' (FloatV (round2 (float_field d ''credit_limit'' * (12 / 10)))))
       ''last_updated_ts'' (StrV (format_timestamp (plus_minutes t (fst (randint 0 30 g)))))"

definition customer_delta2_update :: "datetime \<Rightarrow> pydict \<Rightarrow> rng \<Rightarrow> pydict" where
  "customer_delta2_update t d g =
     setitem
       (setitem
         (setitem d ''city'' (StrV (fst (choice CITIES (advance 1 g)))))
         ''phone'' (StrV (fst (generate_phone (advance 2 g)))))
       ''last_updated_ts'' (StrV (format_timestamp (plus_minutes t (fst (randint 0 30 g)))))"

definition product_delta1_update :: "pydict \<Rightarrow> rng \<Rightarrow> pydict" where
  "product_delta1_update d g =
     setitem
       (setitem d ''price''
         (FloatV (round2 (float_field d ''price'' * fst (uniform (8 / 10) (13 / 10) g)))))
       ''stock_quantity'' (IntV (fst (randint 0 500 (advance 1 g))))"

definition product_delta2_update :: "pydict \<Rightarrow> rng \<Rightarrow> pydict" where
  "product_delta2_update d g =
     setitem
       (setitem
         (setitem d ''price''
           (FloatV (round2 (float_field d ''price'' * fst (uniform (9 / 10) (12 / 10) g)))))
         ''stock_quantity'' (IntV (fst (randint 0 500 (advance 1 g)))))
       ''is_active'' (StrV (fst (choice [''true'', ''false''] (advance 2 g))))"

text \<open>
  The records of the three customer files, from the source \<open>g\<close> at the start of
  scenario A. A customer takes nine draws, a modification of the first delta one and a
  modification of the second delta five.
\<close>

definition customers_initial :: "rng \<Rightarrow> pydict list" where
  "customers_initial g =
     map (\<lambda>j. built_customer 60 base_time (1 + int j) (advance (9 * j) g)) [0..<20]"

definition customers_delta1 :: "rng \<Rightarrow> pydict list" where
  "customers_delta1 g =
     map (\<lambda>j. built_customer 30 (plus_hours base_time 2) (21 + int j) (advance (180 + 9 * j) g))
       [0..<5] @
     map (\<lambda>(k, j). customer_delta1_update (plus_hours base_time 2) (customers_initial g ! j)
                     (advance (225 + k) g))
       [(0, 2), (1, 6), (2, 14)]"

definition customers_delta2 :: "rng \<Rightarrow> pydict list" where
  "customers_delta2 g =
     map (\<lambda>j. built_customer 30 (plus_hours base_time 4) (26 + int j) (advance (228 + 9 * j) g))
       [0..<3] @
     map (\<lambda>(k, d). customer_delta2_update (plus_hours base_time 4) d (advance (255 + 5 * k) g))
       [(0, customers_initial g ! 0), (1, customers_initial g ! 9),
        (2, customers_delta1 g ! 0), (3, customers_delta1 g ! 4)]"

text \<open>
  The records of the three product files, from the source \<open>g\<close> at the start of
  scenario B. A product takes seven draws, a modification of the first delta two and a
  modification of the second delta three.
\<close>

definition products_initial :: "rng \<Rightarrow> pydict list" where
  "products_initial g = map (\<lambda>j. built_product (1 + int j) (advance (7 * j) g)) [0..<25]"

definition products_delta1 :: "rng \<Rightarrow> pydict list" where
  "products_delta1 g =
     map (\<lambda>j. built_product (26 + int j) (advance (175 + 7 * j) g)) [0..<5] @
     map (\<lambda>(k, j). product_delta1_update (products_initial g ! j) (advance (210 + 2 * k) g))
       [(0, 1), (1, 7), (2, 14), (3, 21)]"

definition products_delta2 :: "rng \<Rightarrow> pydict list" where
  "products_delta2 g =
     map (\<lambda>j. built_product (31 + int j) (advance (218 + 7 * j) g)) [0..<4] @
     map (\<lambda>(k, d). product_delta2_update d (advance (246 + 3 * k) g))
       [(0, products_initial g ! 0), (1, products_initial g ! 4), (2, products_initial g ! 11),
        (3, products_delta1 g ! 0), (4, products_delta1 g ! 2), (5, products_delta1 g ! 4)]"

text \<open>The six files, and what it means for a written file to hold a header and rows.\<close>

definition customers_initial_csv :: string where
  "customers_initial_csv = path_join SCENARIO_WITH_TS_DIR ''customers_with_ts_initial.csv''"

definition customers_delta1_csv :: string where
  "customers_delta1_csv = path_join SCENARIO_WITH_TS_DIR ''customers_with_ts_delta1.csv''"

definition customers_delta2_csv :: string where
  "customers_delta2_csv = path_join SCENARIO_WITH_TS_DIR ''customers_with_ts_delta2.csv''"

definition products_initial_csv :: string where
  "products_initial_csv = path_join SCENARIO_NO_TS_DIR ''products_no_ts_initial.csv''"

definition products_delta1_csv :: string where
  "products_delta1_csv = path_join SCENARIO_NO_TS_DIR ''products_no_ts_delta1.csv''"

definition products_delta2_csv :: string where
  "products_delta2_csv = path_join SCENARIO_NO_TS_DIR ''products_no_ts_delta2.csv''"

definition output_files :: "string list" where
  "output_files =
     [customers_initial_csv, customers_delta1_csv, customers_delta2_csv,
      products_initial_csv, products_delta1_csv, products_delta2_csv]"

definition customers_written :: "rng \<Rightarrow> (string \<rightharpoonup> string) \<Rightarrow> (string \<rightharpoonup> string)" where
  "customers_written g fs =
     fs(customers_initial_csv \<mapsto>
          csv_text (map StrV customer_columns # map (row_of customer_columns) (customers_initial g)),
        customers_delta1_csv \<mapsto>
          csv_text (map StrV customer_columns # map (row_of customer_columns) (customers_delta1 g)),
        customers_delta2_csv \<mapsto>
          csv_text (map StrV customer_columns # map (row_of customer_columns) (customers_delta2 g)))"

definition products_written :: "rng \<Rightarrow> (string \<rightharpoonup> string) \<Rightarrow> (string \<rightharpoonup> string)" where
  "products_written g fs =
     fs(products_initial_csv \<mapsto>
          csv_text (map StrV product_columns # map (row_of product_columns) (products_initial g)),
        products_delta1_csv \<mapsto>
          csv_text (map StrV product_columns # map (row_of product_columns) (products_delta1 g)),
        products_delta2_csv \<mapsto>
          csv_text (map StrV product_columns # map (row_of product_columns) (products_delta2 g)))"

definition csv_table :: "(string \<rightharpoonup> string) \<Rightarrow> string \<Rightarrow> string list \<Rightarrow> val list list \<Rightarrow> bool" where
  "csv_table fs filepath header rows \<longleftrightarrow> fs filepath = Some (csv_text (map StrV header # rows))"

definition float_between :: "real \<Rightarrow> real \<Rightarrow> val \<Rightarrow> bool" where
  "float_between lo hi v = (case v of FloatV x \<Rightarrow> lo \<le> x \<and> x \<le> hi | _ \<Rightarrow> False)"

text \<open>
  A float cell written as a decimal numeral: a whole number of hundredths, one digit
  after the point when that number is a multiple of ten and two digits otherwise.
\<close>

definition written_decimals :: "val \<Rightarrow> bool" where
  "written_decimals v \<longleftrightarrow>
     (\<exists>k whole frac.
        v = FloatV (real_of_int k / 100) \<and>
        cell_text v = whole @ ''.'' @ frac \<and>
        CHR ''.'' \<notin> set whole \<and>
        length frac = (if k mod 10 = 0 then 1 else 2))"

text \<open>
  Two sources give the same draws from the \<open>lo\<close>-th up to the \<open>hi\<close>-th, each counted
  from its own position.
\<close>

definition same_draws :: "nat \<Rightarrow> nat \<Rightarrow> rng \<Rightarrow> rng \<Rightarrow> bool" where
  "same_draws lo hi g g' \<longleftrightarrow>
     (\<forall>k. lo \<le> k \<and> k < hi \<longrightarrow> draws g (pos g + k) = draws g' (pos g' + k))"

definition customer_files :: "string list" where
  "customer_files = [customers_initial_csv, customers_delta1_csv, customers_delta2_csv]"

definition product_files :: "string list" where
  "product_files = [products_initial_csv, products_delta1_csv, products_delta2_csv]"

text \<open>Two random sources for concrete runs: every draw the same, and the \<open>k\<close>-th draw \<open>k\<close>.\<close>

definition constant_source :: "nat \<Rightarrow> rng" where
  "constant_source c = \<lparr>draws = (\<lambda>k. c), pos = 0\<rparr>"

definition counting_source :: rng where
  "counting_source = \<lparr>draws = (\<lambda>k. k), pos = 0\<rparr>"

text \<open>
  The source as \<open>random.seed(42)\<close> leaves it. The generator of the standard library is
  the Mersenne Twister, seeded at line 26 of the program; the table holds what its first
  539 calls return in the order of the program, 275 for scenario A and 264 for
  scenario B. The entry of a \<open>randint(a, b)\<close> is the result less \<open>a\<close>, the entry of a
  \<open>choice\<close> is the index chosen, and the entry of a \<open>uniform\<close> is the numerator \<open>n\<close> of
  its \<open>random() = n / 2\<^sup>5\<^sup>3\<close>. The program takes no further draw.
\<close>

definition seed42_draws :: "nat list" where
  "seed42_draws =
    [40, 3, 0, 8, 1, 228, 142, 1679, 6095167118799258, 57, 17, 2, 13, 0, 30, 95, 3582,
      2095623025556443, 38, 0, 17, 6, 4, 429, 225, 7359, 5307633428651526, 51, 27, 0, 5, 3,
      348, 284, 2547, 1939373957590953, 48, 10, 3, 2, 3, 99, 367, 5635, 5437880659795598,
      51, 1, 23, 14, 4, 127, 387, 1291, 4972339962590957, 53, 20, 19, 11, 4, 196, 721, 1139,
      412749354312246, 14, 24, 9, 2, 1, 103, 389, 4554, 4083956937584860, 53, 11, 5, 11, 2,
      214, 686, 4374, 6321435404345953, 43, 20, 2, 5, 4, 746, 250, 2677, 4163669835681783,
      17, 29, 20, 17, 1, 701, 332, 916, 2063081623094942, 2, 25, 10, 12, 2, 67, 216, 5155,
      1915169649142608, 31, 12, 28, 14, 1, 271, 142, 4040, 6710264204285769, 34, 8, 23, 13,
      4, 408, 370, 3593, 8983112004237951, 8, 16, 15, 2, 0, 112, 156, 2621,
      7134416660385809, 27, 19, 2, 12, 3, 610, 479, 8669, 2264537074131550, 35, 27, 0, 3, 4,
      768, 273, 5573, 1004772654877516, 27, 5, 14, 0, 2, 512, 780, 2927, 4572790001141737,
      6, 27, 20, 9, 4, 623, 203, 2504, 3367916574396321, 10, 17, 24, 16, 0, 613, 331, 8005,
      175430899502451, 29, 11, 28, 9, 1, 59, 246, 1290, 771497709631791, 15, 26, 2, 17, 1,
      131, 675, 7787, 8528454722191286, 5, 8, 16, 13, 1, 552, 773, 3295, 6421673456644750,
      12, 21, 20, 11, 3, 529, 462, 1982, 2232935258658575, 2, 10, 0, 17, 1, 602, 225, 117,
      639448871392321, 20, 1, 7, 2, 28, 1, 10, 0, 526, 243, 4562, 6025616146108543, 6, 17,
      4, 15, 1, 484, 416, 3119, 849611243864532, 21, 13, 11, 13, 3, 478, 746, 887,
      6065128648549231, 20, 3, 62, 412, 5559, 25, 3, 254, 196, 3116, 17, 14, 143, 432, 3006,
      8, 14, 255, 77, 7260, 4, 1, 0, 5873999003206631, 276, 0, 0, 1, 2, 6, 4374266383231288,
      109, 12, 0, 1, 6, 0, 8874873083382456, 135, 14, 2, 3, 7, 2, 1710447928529965, 111, 1,
      0, 5, 5, 0, 451642022834854, 244, 16, 1, 0, 1, 2, 617185296863458, 34, 7, 3, 0, 3, 0,
      5578892678263669, 214, 18, 2, 2, 3, 5, 2149891934518592, 202, 4, 2, 3, 5, 1,
      83906176305356, 318, 18, 0, 0, 3, 4, 1193062721890392, 178, 2, 1, 2, 4, 2,
      3946815759434044, 278, 9, 0, 5, 4, 1, 8457129631626167, 68, 8, 0, 0, 2, 4,
      2537834878294146, 107, 10, 1, 5, 4, 7, 2261899154493575, 464, 1, 0, 5, 6, 4,
      397098248020347, 170, 4, 2, 1, 7, 6, 5052199894378202, 57, 2, 1, 4, 0, 5,
      5246779733166371, 75, 13, 1, 0, 4, 5, 8097305395428204, 407, 1, 2, 1, 3, 1,
      3185653934118602, 286, 13, 1, 1, 2, 2, 7939091381760129, 12, 5, 2, 3, 3, 4,
      1433926692652416, 359, 3, 3, 0, 7, 3, 1797592245874503, 470, 14, 2, 2, 3, 3,
      213150278606781, 98, 12, 2, 2, 1, 4, 3162843152179350, 260, 12, 2, 0, 1, 4,
      1608395900749341, 492, 8, 0, 0, 6, 5, 6562150527356269, 160, 13, 0, 3, 3, 4,
      399798353382351, 223, 0, 1, 2, 6, 1, 8546701562883564, 471, 10, 2, 5, 1, 4,
      4567753440408862, 341, 13, 2, 3, 4, 2, 1727941942610299, 340, 12, 1, 5544065492239239,
      154, 3657599957407347, 426, 3656379738878, 146, 1893157322634393, 402, 4, 5, 7,
      3979254681617801, 345, 6, 3, 5, 2, 1, 2556120695558822, 339, 19, 2, 0, 3, 4,
      2023383239355295, 101, 4, 0, 0, 3, 7, 5505866474594723, 393, 2, 3, 3732952765392761,
      322, 0, 6470284794728726, 196, 1, 3599752968656654, 75, 0, 8040364921388244, 440, 0,
      7011387707709830, 112, 0, 7242777697252620, 356, 1]"

definition seed42_source :: rng where
  "seed42_source =
     \<lparr>draws = (\<lambda>k. if k < length seed42_draws then seed42_draws ! k else 0), pos = 0\<rparr>"

section \<open>The random source and the dictionaries\<close>

lemma advance_advance [simp]: "advance j (advance k g) = advance (k + j) g"
  by (simp add: advance_def add.assoc)

lemma advance_0 [simp]: "advance 0 g = g"
  by (simp add: advance_def)

lemma snd_randbelow [simp]: "snd (randbelow n g) = advance 1 g"
  by (simp add: randbelow_def advance_def)

lemma snd_choice [simp]: "snd (choice xs g) = advance 1 g"
  by (simp add: choice_def split_def)

lemma snd_randint [simp]: "snd (randint a b g) = advance 1 g"
  by (simp add: randint_def split_def)

lemma snd_uniform [simp]: "snd (uniform a b g) = advance 1 g"
  by (simp add: uniform_def random_unit_def split_def advance_def)

lemma snd_generate_email [simp]: "snd (generate_email f l i g) = advance 1 g"
  by (simp add: generate_email_def split_def Let_def)

lemma snd_generate_phone [simp]: "snd (generate_phone g) = advance 3 g"
  by (simp add: generate_phone_def split_def Let_def del: One_nat_def)

lemma snd_generate_customer_record [simp]: "snd (generate_customer_record i ts g) = advance 8 g"
  by (simp add: generate_customer_record_def split_def Let_def del: One_nat_def)

lemma snd_generate_product_record [simp]: "snd (generate_product_record i g) = advance 7 g"
  by (simp add: generate_product_record_def split_def Let_def del: One_nat_def)

lemma bindE_Inr [simp]: "bindE (Inr x) f = f x"
  by (simp add: bindE_def)

lemma bindE_Inl [simp]: "bindE (Inl e) f = Inl e"
  by (simp add: bindE_def)

lemma dict_to_list_row:
  "set (keys d) \<subseteq> set cols \<Longrightarrow> dict_to_list cols d = Inr (row_of cols d)"
  by (auto simp: dict_to_list_def row_of_def)

lemma dicts_to_lists_rows:
  "\<forall>d \<in> set ds. set (keys d) \<subseteq> set cols \<Longrightarrow> dicts_to_lists cols ds = Inr (map (row_of cols) ds)"
  by (induction ds) (simp_all add: dict_to_list_row)

lemma keys_setitem: "k \<in> set (keys d) \<Longrightarrow> keys (setitem d k v) = keys d"
  by (simp add: keys_def setitem_def update_keys)

lemma map_of_setitem: "map_of (setitem d k v) k' = (if k' = k then Some v else map_of d k')"
  by (simp add: setitem_def update_conv')

lemma keys_built_customer [simp]: "keys (built_customer hi t i g) = customer_columns"
  by (simp add: built_customer_def generate_customer_record_def split_def Let_def keys_def
      customer_columns_def)

lemma keys_built_product [simp]: "keys (built_product i g) = product_columns"
  by (simp add: built_product_def generate_product_record_def split_def Let_def keys_def
      product_columns_def)

lemma keys_customer_delta1_update [simp]:
  "keys d = customer_columns \<Longrightarrow> keys (customer_delta1_update t d g) = customer_columns"
  by (simp add: customer_delta1_update_def keys_setitem customer_columns_def)

lemma keys_customer_delta2_update [simp]:
  "keys d = customer_columns \<Longrightarrow> keys (customer_delta2_update t d g) = customer_columns"
  by (simp add: customer_delta2_update_def keys_setitem customer_columns_def)

lemma keys_product_delta1_update [simp]:
  "keys d = product_columns \<Longrightarrow> keys (product_delta1_update d g) = product_columns"
  by (simp add: product_delta1_update_def keys_setitem product_columns_def)

lemma keys_product_delta2_update [simp]:
  "keys d = product_columns \<Longrightarrow> keys (product_delta2_update d g) = product_columns"
  by (simp add: product_delta2_update_def keys_setitem product_columns_def)

lemma credit_limit_built_customer:
  "map_of (built_customer hi t i g) ''credit_limit'' =
     Some (FloatV (round2 (fst (uniform 1000 50000 (advance 8 g)))))"
  by (simp add: built_customer_def generate_customer_record_def split_def Let_def
      del: One_nat_def)

lemma price_built_product:
  "map_of (built_product i g) ''price'' =
     Some (FloatV (round2 (fst (uniform (999 / 100) (99999 / 100) (advance 3 g)))))"
  by (simp add: built_product_def generate_product_record_def split_def Let_def
      del: One_nat_def)

lemma price_product_delta1_update:
  "\<exists>x. map_of (product_delta1_update d g) ''price'' = Some (FloatV x)"
  by (simp add: product_delta1_update_def map_of_setitem)

section \<open>The loops, one pass at a time\<close>

lemma initial_customers_loop_step:
  "initial_customers_loop (i # is) t customers \<lparr>objs = ob, next_addr = n, rand = g, files = fs\<rparr> =
   initial_customers_loop is t (AList.update i n customers)
     \<lparr>objs = ob(n := built_customer 60 t i g), next_addr = n + 1, rand = advance 9 g, files = fs\<rparr>"
  by (simp add: split_def Let_def new_object_def built_customer_def del: One_nat_def)

lemma new_customers_loop_step:
  "new_customers_loop (i # is) t customers delta \<lparr>objs = ob, next_addr = n, rand = g, files = fs\<rparr> =
   new_customers_loop is t (AList.update i n customers) (delta @ [n])
     \<lparr>objs = ob(n := built_customer 30 t i g), next_addr = n + 1, rand = advance 9 g, files = fs\<rparr>"
  by (simp add: split_def Let_def new_object_def built_customer_def del: One_nat_def)

lemma modify_customers_delta1_step:
  "modify_customers_delta1 (cid # cids) t customers delta
     \<lparr>objs = ob, next_addr = n, rand = g, files = fs\<rparr> =
   (case map_of customers cid of
      None \<Rightarrow> Inl (KeyError (IntV cid))
    | Some a \<Rightarrow>
       (case map_of (ob a) ''credit_limit'' of
          None \<Rightarrow> Inl (KeyError (StrV ''credit_limit''))
        | Some (StrV s) \<Rightarrow> Inl TypeError
        | Some (IntV j) \<Rightarrow>
            modify_customers_delta1 cids t customers (delta @ [a])
              \<lparr>objs = ob(a := customer_delta1_update t (ob a) g), next_addr = n,
               rand = advance 1 g, files = fs\<rparr>
        | Some (FloatV x) \<Rightarrow>
            modify_customers_delta1 cids t customers (delta @ [a])
              \<lparr>objs = ob(a := customer_delta1_update t (ob a) g), next_addr = n,
               rand = advance 1 g, files = fs\<rparr>))"
  by (simp add: split_def Let_def get_field_def set_field_def snapshot_get_def getitem_def
      times_float_def customer_delta1_update_def float_field_def
      split: option.splits val.splits)

lemma modify_customers_delta2_step:
  "modify_customers_delta2 (cid # cids) t customers delta
     \<lparr>objs = ob, next_addr = n, rand = g, files = fs\<rparr> =
   (case map_of customers cid of
      None \<Rightarrow> Inl (KeyError (IntV cid))
    | Some a \<Rightarrow>
        modify_customers_delta2 cids t customers (delta @ [a])
          \<lparr>objs = ob(a := customer_delta2_update t (ob a) g), next_addr = n,
           rand = advance 5 g, files = fs\<rparr>)"
  by (simp add: split_def Let_def set_field_def snapshot_get_def customer_delta2_update_def
      del: One_nat_def split: option.splits)

lemma initial_products_loop_step:
  "initial_products_loop (i # is) products \<lparr>objs = ob, next_addr = n, rand = g, files = fs\<rparr> =
   initial_products_loop is (AList.update i n products)
     \<lparr>objs = ob(n := built_product i g), next_addr = n + 1, rand = advance 7 g, files = fs\<rparr>"
  by (simp add: split_def Let_def new_object_def built_product_def del: One_nat_def)

lemma new_products_loop_step:
  "new_products_loop (i # is) products delta \<lparr>objs = ob, next_addr = n, rand = g, files = fs\<rparr> =
   new_products_loop is (AList.update i n products) (delta @ [n])
     \<lparr>objs = ob(n := built_product i g), next_addr = n + 1, rand = advance 7 g, files = fs\<rparr>"
  by (simp add: split_def Let_def new_object_def built_product_def del: One_nat_def)

lemma modify_products_delta1_step:
  "modify_products_delta1 (pid # pids) products delta
     \<lparr>objs = ob, next_addr = n, rand = g, files = fs\<rparr> =
   (case map_of products pid of
      None \<Rightarrow> Inl (KeyError (IntV pid))
    | Some a \<Rightarrow>
       (case map_of (ob a) ''price'' of
          None \<Rightarrow> Inl (KeyError (StrV ''price''))
        | Some (StrV s) \<Rightarrow> Inl TypeError
        | Some (IntV j) \<Rightarrow>
            modify_products_delta1 pids products (delta @ [a])
              \<lparr>objs = ob(a := product_delta1_update (ob a) g), next_addr = n,
               rand = advance 2 g, files = fs\<rparr>
        | Some (FloatV x) \<Rightarrow>
            modify_products_delta1 pids products (delta @ [a])
              \<lparr>objs = ob(a := product_delta1_update (ob a) g), next_addr = n,
               rand = advance 2 g, files = fs\<rparr>))"
  by (simp add: split_def Let_def get_field_def set_field_def snapshot_get_def getitem_def
      times_float_def product_delta1_update_def float_field_def
      del: One_nat_def split: option.splits val.splits)

lemma modify_products_delta2_step:
  "modify_products_delta2 (pid # pids) products delta
     \<lparr>objs = ob, next_addr = n, rand = g, files = fs\<rparr> =
   (case map_of products pid of
      None \<Rightarrow> Inl (KeyError (IntV pid))
    | Some a \<Rightarrow>
       (case map_of (ob a) ''price'' of
          None \<Rightarrow> Inl (KeyError (StrV ''price''))
        | Some (StrV s) \<Rightarrow> Inl TypeError
        | Some (IntV j) \<Rightarrow>
            modify_products_delta2 pids products (delta @ [a])
              \<lparr>objs = ob(a := product_delta2_update (ob a) g), next_addr = n,
               rand = advance 3 g, files = fs\<rparr>
        | Some (FloatV x) \<Rightarrow>
            modify_products_delta2 pids products (delta @ [a])
              \<lparr>objs = ob(a := product_delta2_update (ob a) g), next_addr = n,
               rand = advance 3 g, files = fs\<rparr>))"
  by (simp add: split_def Let_def get_field_def set_field_def snapshot_get_def getitem_def
      times_float_def product_delta2_update_def float_field_def
      del: One_nat_def split: option.splits val.splits)

lemma py_range_customers:
  "py_range 1 21 = [1, 2, 3, 4, 5, 6, 7, 8, 9, 10, 11, 12, 13, 14, 15, 16, 17, 18, 19, 20]"
  "py_range 21 26 = [21, 22, 23, 24, 25]"
  "py_range 26 29 = [26, 27, 28]"
  by (simp_all add: py_range_def upto_rec1)

lemma py_range_products:
  "py_range 1 26 = [1, 2, 3, 4, 5, 6, 7, 8, 9, 10, 11, 12, 13, 14, 15, 16, 17, 18, 19, 20,
                    21, 22, 23, 24, 25]"
  "py_range 26 31 = [26, 27, 28, 29, 30]"
  "py_range 31 35 = [31, 32, 33, 34]"
  by (simp_all add: py_range_def upto_rec1)

section \<open>The two scenarios and the whole run\<close>

text \<open>
  Scenario A, from any state: no lookup fails, 28 objects are created, 275 draws are
  taken, and the three files hold the records named above.
\<close>

lemma generate_customers_with_timestamp_files:
  "\<exists>ob'. generate_customers_with_timestamp \<lparr>objs = ob, next_addr = n, rand = g, files = fs\<rparr> =
     Inr \<lparr>objs = ob', next_addr = n + 28, rand = advance 275 g,
          files = customers_written g fs\<rparr>"
  apply (simp add: generate_customers_with_timestamp_def Let_def py_range_customers
      initial_customers_loop_step new_customers_loop_step
      modify_customers_delta1_step modify_customers_delta2_step
      credit_limit_built_customer write_records_def write_csv_def dicts_to_lists_rows
      customers_initial_def customers_delta1_def customers_delta2_def
      customers_initial_csv_def customers_delta1_csv_def customers_delta2_csv_def base_time_def
      customers_written_def
      del: initial_customers_loop.simps(2) new_customers_loop.simps(2)
        modify_customers_delta1.simps(2) modify_customers_delta2.simps(2)
        dicts_to_lists.simps One_nat_def)
  apply (simp add: upt_conv_Cons)
  done

text \<open>
  Scenario B, from any state: no lookup fails, 34 objects are created, 264 draws are
  taken, and the three files hold the records named above.
\<close>

lemma generate_products_without_timestamp_files:
  "\<exists>ob'. generate_products_without_timestamp \<lparr>objs = ob, next_addr = n, rand = g, files = fs\<rparr> =
     Inr \<lparr>objs = ob', next_addr = n + 34, rand = advance 264 g,
          files = products_written g fs\<rparr>"
  apply (simp add: generate_products_without_timestamp_def Let_def py_range_products
      initial_products_loop_step new_products_loop_step
      modify_products_delta1_step modify_products_delta2_step
      price_built_product write_records_def write_csv_def dicts_to_lists_rows
      products_initial_def products_delta1_def products_delta2_def
      products_initial_csv_def products_delta1_csv_def products_delta2_csv_def
      products_written_def
      del: initial_products_loop.simps(2) new_products_loop.simps(2)
        modify_products_delta1.simps(2) modify_products_delta2.simps(2)
        dicts_to_lists.simps One_nat_def)
  apply (simp add: upt_conv_Cons)
  done

text \<open>The whole run: scenario A on the source as seeded, scenario B 275 draws later.\<close>

lemma run_written: "run g fs = Inr (products_written (advance 275 g) (customers_written g fs))"
proof -
  obtain ob1 where a:
    "generate_customers_with_timestamp \<lparr>objs = (\<lambda>a. []), next_addr = 0, rand = g, files = fs\<rparr> =
       Inr \<lparr>objs = ob1, next_addr = 0 + 28, rand = advance 275 g, files = customers_written g fs\<rparr>"
    using generate_customers_with_timestamp_files [of "\<lambda>a. []" 0 g fs] by blast
  obtain ob2 where b:
    "generate_products_without_timestamp
       \<lparr>objs = ob1, next_addr = 0 + 28, rand = advance 275 g, files = customers_written g fs\<rparr> =
     Inr \<lparr>objs = ob2, next_addr = 0 + 28 + 34, rand = advance 264 (advance 275 g),
          files = products_written (advance 275 g) (customers_written g fs)\<rparr>"
    using generate_products_without_timestamp_files by blast
  show ?thesis
    unfolding run_def main_def a bindE_Inr b by simp
qed

lemma written_customers:
  "products_written g' (customers_written g fs) customers_initial_csv =
     Some (csv_text (map StrV customer_columns # map (row_of customer_columns) (customers_initial g)))"
  "products_written g' (customers_written g fs) customers_delta1_csv =
     Some (csv_text (map StrV customer_columns # map (row_of customer_columns) (customers_delta1 g)))"
  "products_written g' (customers_written g fs) customers_delta2_csv =
     Some (csv_text (map StrV customer_columns # map (row_of customer_columns) (customers_delta2 g)))"
  by (simp_all add: products_written_def customers_written_def
      customers_initial_csv_def customers_delta1_csv_def customers_delta2_csv_def
      products_initial_csv_def products_delta1_csv_def products_delta2_csv_def
      path_join_def SCENARIO_WITH_TS_DIR_def SCENARIO_NO_TS_DIR_def)

lemma written_products:
  "products_written g' fs' products_initial_csv =
     Some (csv_text (map StrV product_columns # map (row_of product_columns) (products_initial g')))"
  "products_written g' fs' products_delta1_csv =
     Some (csv_text (map StrV product_columns # map (row_of product_columns) (products_delta1 g')))"
  "products_written g' fs' products_delta2_csv =
     Some (csv_text (map StrV product_columns # map (row_of product_columns) (products_delta2 g')))"
  by (simp_all add: products_written_def
      products_initial_csv_def products_delta1_csv_def products_delta2_csv_def
      path_join_def SCENARIO_NO_TS_DIR_def)

section \<open>The identifiers of the customer files\<close>

text \<open>The first column of a customer row is the identifier, and no modification changes it.\<close>

lemma customer_id_built_customer:
  "hd (row_of customer_columns (built_customer hi t i g)) = IntV i"
  by (simp add: row_of_def customer_columns_def built_customer_def generate_customer_record_def
      split_def Let_def)

lemma customer_id_customer_delta1_update:
  "hd (row_of customer_columns (customer_delta1_update t d g)) = hd (row_of customer_columns d)"
  by (simp add: row_of_def customer_columns_def customer_delta1_update_def map_of_setitem)

lemma customer_id_customer_delta2_update:
  "hd (row_of customer_columns (customer_delta2_update t d g)) = hd (row_of customer_columns d)"
  by (simp add: row_of_def customer_columns_def customer_delta2_update_def map_of_setitem)

lemmas customer_id_simps =
  customer_id_built_customer customer_id_customer_delta1_update customer_id_customer_delta2_update

lemma customers_initial_ids:
  "map hd (map (row_of customer_columns) (customers_initial g)) =
     map IntV [1, 2, 3, 4, 5, 6, 7, 8, 9, 10, 11, 12, 13, 14, 15, 16, 17, 18, 19, 20]"
  by (simp add: customers_initial_def customer_id_simps upt_conv_Cons)

lemma customers_delta1_ids:
  "map hd (map (row_of customer_columns) (customers_delta1 g)) =
     map IntV [21, 22, 23, 24, 25, 3, 7, 15]"
  by (simp add: customers_delta1_def customers_initial_def customer_id_simps upt_conv_Cons)

lemma customers_delta2_ids:
  "map hd (map (row_of customer_columns) (customers_delta2 g)) =
     map IntV [26, 27, 28, 1, 10, 21, 25]"
  by (simp add: customers_delta2_def customers_delta1_def customers_initial_def customer_id_simps
      upt_conv_Cons)

text \<open>
  Claim C3. The first delta of the customers has exactly 8 rows, with the identifiers
  21, 22, 23, 24, 25 (the new records, ascending) and then 3, 7, 15 (the modified records,
  in the order of the loop), whatever the random source and the files found.
\<close>

theorem delta1_customer_rows:
  "\<exists>fs' rows. run g fs = Inr fs' \<and> csv_table fs' customers_delta1_csv customer_columns rows \<and>
     length rows = 8 \<and> map hd rows = map IntV [21, 22, 23, 24, 25, 3, 7, 15]"
proof (intro exI conjI)
  show "run g fs = Inr (products_written (advance 275 g) (customers_written g fs))"
    by (rule run_written)
  show "csv_table (products_written (advance 275 g) (customers_written g fs)) customers_delta1_csv
          customer_columns (map (row_of customer_columns) (customers_delta1 g))"
    by (simp add: csv_table_def written_customers)
  show "map hd (map (row_of customer_columns) (customers_delta1 g)) =
          map IntV [21, 22, 23, 24, 25, 3, 7, 15]"
    by (rule customers_delta1_ids)
  then show "length (map (row_of customer_columns) (customers_delta1 g)) = 8"
    using map_eq_imp_length_eq by fastforce
qed

text \<open>
  Claim C4. The second delta of the customers has exactly 7 rows, with the identifiers
  26, 27, 28 and then 1, 10, 21, 25. The identifiers 21 and 25 are those of the first and
  the fifth record added by the first delta, and their rows keep the identifier, the names
  and the email written there.
\<close>

theorem delta2_customer_rows:
  "\<exists>fs' rows1 rows2.
     run g fs = Inr fs' \<and>
     csv_table fs' customers_delta1_csv customer_columns rows1 \<and>
     csv_table fs' customers_delta2_csv customer_columns rows2 \<and>
     length rows2 = 7 \<and> map hd rows2 = map IntV [26, 27, 28, 1, 10, 21, 25] \<and>
     map hd (take 5 rows1) = map IntV [21, 22, 23, 24, 25] \<and>
     take 4 (rows2 ! 5) = take 4 (rows1 ! 0) \<and> take 4 (rows2 ! 6) = take 4 (rows1 ! 4)"
proof (intro exI conjI)
  show "run g fs = Inr (products_written (advance 275 g) (customers_written g fs))"
    by (rule run_written)
  show "csv_table (products_written (advance 275 g) (customers_written g fs)) customers_delta1_csv
          customer_columns (map (row_of customer_columns) (customers_delta1 g))"
    by (simp add: csv_table_def written_customers)
  show "csv_table (products_written (advance 275 g) (customers_written g fs)) customers_delta2_csv
          customer_columns (map (row_of customer_columns) (customers_delta2 g))"
    by (simp add: csv_table_def written_customers)
  show ids: "map hd (map (row_of customer_columns) (customers_delta2 g)) =
          map IntV [26, 27, 28, 1, 10, 21, 25]"
    by (rule customers_delta2_ids)
  then show "length (map (row_of customer_columns) (customers_delta2 g)) = 7"
    using map_eq_imp_length_eq by fastforce
  show "map hd (take 5 (map (row_of customer_columns) (customers_delta1 g))) =
          map IntV [21, 22, 23, 24, 25]"
    using arg_cong [OF customers_delta1_ids [of g], of "take 5"] by (simp add: take_map)
  show "take 4 (map (row_of customer_columns) (customers_delta2 g) ! 5) =
        take 4 (map (row_of customer_columns) (customers_delta1 g) ! 0)"
    by (simp add: customers_delta2_def customers_delta1_def upt_conv_Cons row_of_def
        customer_columns_def customer_delta2_update_def map_of_setitem)
  show "take 4 (map (row_of customer_columns) (customers_delta2 g) ! 6) =
        take 4 (map (row_of customer_columns) (customers_delta1 g) ! 4)"
    by (simp add: customers_delta2_def customers_delta1_def upt_conv_Cons row_of_def
        customer_columns_def customer_delta2_update_def map_of_setitem)
qed

text \<open>
  Claim C5. The initial customer file holds the identifiers 1 to 20, each once and in this
  order, and the identifiers of the three customer files together are exactly 1 to 28.
\<close>

theorem customer_identifiers:
  "\<exists>fs' rows0 rows1 rows2.
     run g fs = Inr fs' \<and>
     csv_table fs' customers_initial_csv customer_columns rows0 \<and>
     csv_table fs' customers_delta1_csv customer_columns rows1 \<and>
     csv_table fs' customers_delta2_csv customer_columns rows2 \<and>
     map hd rows0 = map IntV [1..20] \<and>
     set (map hd (rows0 @ rows1 @ rows2)) = IntV ` {1..28}"
proof (intro exI conjI)
  show "run g fs = Inr (products_written (advance 275 g) (customers_written g fs))"
    by (rule run_written)
  show "csv_table (products_written (advance 275 g) (customers_written g fs)) customers_initial_csv
          customer_columns (map (row_of customer_columns) (customers_initial g))"
    by (simp add: csv_table_def written_customers)
  show "csv_table (products_written (advance 275 g) (customers_written g fs)) customers_delta1_csv
          customer_columns (map (row_of customer_columns) (customers_delta1 g))"
    by (simp add: csv_table_def written_customers)
  show "csv_table (products_written (advance 275 g) (customers_written g fs)) customers_delta2_csv
          customer_columns (map (row_of customer_columns) (customers_delta2 g))"
    by (simp add: csv_table_def written_customers)
  show "map hd (map (row_of customer_columns) (customers_initial g)) = map IntV [1..20]"
    using customers_initial_ids [of g] by (simp add: upto_rec1)
  have "{1..28::int} = set [1..28]"
    by simp
  also have "[1..28::int] = [1, 2, 3, 4, 5, 6, 7, 8, 9, 10, 11, 12, 13, 14, 15, 16, 17, 18, 19,
      20, 21, 22, 23, 24, 25, 26, 27, 28]"
    by (simp add: upto_rec1)
  finally have all: "IntV ` {1..28} = set (map IntV [1, 2, 3, 4, 5, 6, 7, 8, 9, 10, 11, 12, 13,
      14, 15, 16, 17, 18, 19, 20, 21, 22, 23, 24, 25, 26, 27, 28])"
    by simp
  show "set (map hd (map (row_of customer_columns) (customers_initial g) @
                     map (row_of customer_columns) (customers_delta1 g) @
                     map (row_of customer_columns) (customers_delta2 g))) = IntV ` {1..28}"
    unfolding all map_append customers_initial_ids customers_delta1_ids customers_delta2_ids
    by auto
qed

section \<open>No lookup fails\<close>

text \<open>
  Claim C9. Every identifier a modification loop looks up is a key of the snapshot at that
  moment: from any state each scenario ends without an error, and so does the whole run.
  A missing key would end it with \<open>KeyError\<close>.
\<close>

theorem snapshot_lookups_succeed:
  "(\<exists>w'. generate_customers_with_timestamp w = Inr w') \<and>
   (\<exists>w'. generate_products_without_timestamp w = Inr w') \<and>
   (\<exists>fs'. run g fs = Inr fs')"
proof -
  have w: "w = \<lparr>objs = objs w, next_addr = next_addr w, rand = rand w, files = files w\<rparr>"
    by simp
  have "\<exists>w'. generate_customers_with_timestamp w = Inr w'"
    using generate_customers_with_timestamp_files [of "objs w" "next_addr w" "rand w" "files w"]
    by (subst w) blast
  moreover have "\<exists>w'. generate_products_without_timestamp w = Inr w'"
    using generate_products_without_timestamp_files [of "objs w" "next_addr w" "rand w" "files w"]
    by (subst w) blast
  ultimately show ?thesis
    by (simp add: run_written)
qed

section \<open>The identifiers of the product files\<close>

lemma product_id_built_product:
  "hd (row_of product_columns (built_product i g)) = StrV (''PROD-'' @ zero_pad 4 (nat i))"
  by (simp add: row_of_def product_columns_def built_product_def generate_product_record_def
      split_def Let_def)

lemma product_id_product_delta1_update:
  "hd (row_of product_columns (product_delta1_update d g)) = hd (row_of product_columns d)"
  by (simp add: row_of_def product_columns_def product_delta1_update_def map_of_setitem)

lemma product_id_product_delta2_update:
  "hd (row_of product_columns (product_delta2_update d g)) = hd (row_of product_columns d)"
  by (simp add: row_of_def product_columns_def product_delta2_update_def map_of_setitem)

lemma replicate_small:
  "replicate 2 c = [c, c]" "replicate 3 c = [c, c, c]"
  by (simp_all add: numeral_2_eq_2 numeral_3_eq_3)

lemmas zero_pad_simps = zero_pad_def str_nat.simps digit_char_def replicate_small

lemmas product_id_simps =
  product_id_built_product product_id_product_delta1_update product_id_product_delta2_update
  zero_pad_simps

lemma products_initial_ids:
  "map hd (map (row_of product_columns) (products_initial g)) =
     map StrV [''PROD-0001'', ''PROD-0002'', ''PROD-0003'', ''PROD-0004'', ''PROD-0005'',
               ''PROD-0006'', ''PROD-0007'', ''PROD-0008'', ''PROD-0009'', ''PROD-0010'',
               ''PROD-0011'', ''PROD-0012'', ''PROD-0013'', ''PROD-0014'', ''PROD-0015'',
               ''PROD-0016'', ''PROD-0017'', ''PROD-0018'', ''PROD-0019'', ''PROD-0020'',
               ''PROD-0021'', ''PROD-0022'', ''PROD-0023'', ''PROD-0024'', ''PROD-0025'']"
  by (simp add: products_initial_def product_id_simps upt_conv_Cons)

lemma products_delta1_ids:
  "map hd (map (row_of product_columns) (products_delta1 g)) =
     map StrV [''PROD-0026'', ''PROD-0027'', ''PROD-0028'', ''PROD-0029'', ''PROD-0030'',
               ''PROD-0002'', ''PROD-0008'', ''PROD-0015'', ''PROD-0022'']"
  by (simp add: products_delta1_def products_initial_def product_id_simps upt_conv_Cons)

lemma products_delta2_ids:
  "map hd (map (row_of product_columns) (products_delta2 g)) =
     map StrV [''PROD-0031'', ''PROD-0032'', ''PROD-0033'', ''PROD-0034'',
               ''PROD-0001'', ''PROD-0005'', ''PROD-0012'', ''PROD-0026'', ''PROD-0028'',
               ''PROD-0030'']"
  by (simp add: products_delta2_def products_delta1_def products_initial_def product_id_simps
      upt_conv_Cons)

text \<open>
  Claim C10. The initial product file holds PROD-0001 to PROD-0025; the first delta holds
  PROD-0026 to PROD-0030 and then the modified 2, 8, 15, 22; the second delta holds PROD-0031
  to PROD-0034 and then the modified 1, 5, 12, 26, 28, 30; together they are exactly
  PROD-0001 to PROD-0034.
\<close>

theorem product_identifiers:
  "\<exists>fs' rows0 rows1 rows2.
     run g fs = Inr fs' \<and>
     csv_table fs' products_initial_csv product_columns rows0 \<and>
     csv_table fs' products_delta1_csv product_columns rows1 \<and>
     csv_table fs' products_delta2_csv product_columns rows2 \<and>
     map hd rows0 = map (\<lambda>i. StrV (''PROD-'' @ zero_pad 4 i)) [1..<26] \<and>
     map hd rows1 =
       map (\<lambda>i. StrV (''PROD-'' @ zero_pad 4 i)) ([26..<31] @ [2, 8, 15, 22]) \<and>
     map hd rows2 =
       map (\<lambda>i. StrV (''PROD-'' @ zero_pad 4 i)) ([31..<35] @ [1, 5, 12, 26, 28, 30]) \<and>
     set (map hd (rows0 @ rows1 @ rows2)) = (\<lambda>i. StrV (''PROD-'' @ zero_pad 4 i)) ` {1..34}"
proof (intro exI conjI)
  let ?id = "\<lambda>i. StrV (''PROD-'' @ zero_pad 4 i)"
  let ?r0 = "map (row_of product_columns) (products_initial (advance 275 g))"
  let ?r1 = "map (row_of product_columns) (products_delta1 (advance 275 g))"
  let ?r2 = "map (row_of product_columns) (products_delta2 (advance 275 g))"
  show "run g fs = Inr (products_written (advance 275 g) (customers_written g fs))"
    by (rule run_written)
  show "csv_table (products_written (advance 275 g) (customers_written g fs)) products_initial_csv
          product_columns ?r0"
    by (simp add: csv_table_def written_products)
  show "csv_table (products_written (advance 275 g) (customers_written g fs)) products_delta1_csv
          product_columns ?r1"
    by (simp add: csv_table_def written_products)
  show "csv_table (products_written (advance 275 g) (customers_written g fs)) products_delta2_csv
          product_columns ?r2"
    by (simp add: csv_table_def written_products)
  show r0: "map hd ?r0 = map ?id [1..<26]"
    unfolding products_initial_ids
    by (simp add: upt_conv_Cons zero_pad_simps)
  show r1: "map hd ?r1 = map ?id ([26..<31] @ [2, 8, 15, 22])"
    unfolding products_delta1_ids
    by (simp add: upt_conv_Cons zero_pad_simps)
  show r2: "map hd ?r2 = map ?id ([31..<35] @ [1, 5, 12, 26, 28, 30])"
    unfolding products_delta2_ids
    by (simp add: upt_conv_Cons zero_pad_simps)
  have "set (map hd (?r0 @ ?r1 @ ?r2)) =
        ?id ` (set [1..<26] \<union> set ([26..<31] @ [2, 8, 15, 22]) \<union>
               set ([31..<35] @ [1, 5, 12, 26, 28, 30]))"
    unfolding map_append set_append r0 r1 r2 set_map image_Un by blast
  also have "set [1..<26] \<union> set ([26..<31] @ [2, 8, 15, 22]) \<union>
               set ([31..<35] @ [1, 5, 12, 26, 28, 30]) = {1..34::nat}"
    by auto
  finally show "set (map hd (?r0 @ ?r1 @ ?r2)) = ?id ` {1..34}" .
qed

section \<open>Determinism and the order of the draws\<close>

text \<open>
  A record is a function of the draws of its own pass: two sources that give the same
  draws there build the same record.
\<close>

lemma same_draws_advance:
  assumes "same_draws lo hi g g'" and "lo \<le> k" and "k + n \<le> hi"
  shows "same_draws 0 n (advance k g) (advance k g')"
  using assms by (simp add: same_draws_def advance_def add.assoc)

lemma draw_same:
  assumes "same_draws 0 n g g'" and "k < n"
  shows "fst (randbelow m (advance k g)) = fst (randbelow m (advance k g'))"
    and "fst (choice xs (advance k g)) = fst (choice xs (advance k g'))"
    and "fst (randint a b (advance k g)) = fst (randint a b (advance k g'))"
    and "fst (uniform x y (advance k g)) = fst (uniform x y (advance k g'))"
  using assms
  by (simp_all add: same_draws_def choice_def randint_def randbelow_def uniform_def
      random_unit_def advance_def split_def)

lemma first_draw_same:
  assumes "same_draws 0 n g g'" and "0 < n"
  shows "fst (randbelow m g) = fst (randbelow m g')"
    and "fst (choice xs g) = fst (choice xs g')"
    and "fst (randint a b g) = fst (randint a b g')"
    and "fst (uniform x y g) = fst (uniform x y g')"
  using draw_same [OF assms] by simp_all

lemmas record_unfold =
  generate_customer_record_def generate_product_record_def generate_email_def
  generate_phone_def split_def Let_def

lemma built_customer_same:
  assumes "same_draws 0 9 g g'"
  shows "built_customer hi t i g = built_customer hi t i g'"
  by (simp add: draw_same [OF assms] first_draw_same [OF assms] built_customer_def record_unfold del: One_nat_def)

lemma built_product_same:
  assumes "same_draws 0 7 g g'"
  shows "built_product i g = built_product i g'"
  by (simp add: draw_same [OF assms] first_draw_same [OF assms] built_product_def record_unfold del: One_nat_def)

lemma customer_delta1_update_same:
  assumes "same_draws 0 1 g g'"
  shows "customer_delta1_update t d g = customer_delta1_update t d g'"
  by (simp add: draw_same [OF assms] first_draw_same [OF assms] customer_delta1_update_def record_unfold del: One_nat_def)

lemma customer_delta2_update_same:
  assumes "same_draws 0 5 g g'"
  shows "customer_delta2_update t d g = customer_delta2_update t d g'"
  by (simp add: draw_same [OF assms] first_draw_same [OF assms] customer_delta2_update_def record_unfold del: One_nat_def)

lemma product_delta1_update_same:
  assumes "same_draws 0 2 g g'"
  shows "product_delta1_update d g = product_delta1_update d g'"
  by (simp add: draw_same [OF assms] first_draw_same [OF assms] product_delta1_update_def record_unfold del: One_nat_def)

lemma product_delta2_update_same:
  assumes "same_draws 0 3 g g'"
  shows "product_delta2_update d g = product_delta2_update d g'"
  by (simp add: draw_same [OF assms] first_draw_same [OF assms] product_delta2_update_def record_unfold del: One_nat_def)


lemma same_draws_prefix:
  assumes "same_draws lo hi g g'" and "lo = 0" and "n \<le> hi"
  shows "same_draws 0 n g g'"
  using assms by (simp add: same_draws_def)

lemma customers_same:
  assumes "same_draws 0 275 g g'"
  shows "customers_initial g = customers_initial g'"
    and "customers_delta1 g = customers_delta1 g'"
    and "customers_delta2 g = customers_delta2 g'"
proof -
  note at = same_draws_advance [OF assms]
  note first = same_draws_prefix [OF assms]
  show i: "customers_initial g = customers_initial g'"
    by (simp add: customers_initial_def upt_conv_Cons
        built_customer_same [OF at] built_customer_same [OF first])
  show d: "customers_delta1 g = customers_delta1 g'"
    by (simp add: customers_delta1_def i upt_conv_Cons
        built_customer_same [OF at] customer_delta1_update_same [OF at])
  show "customers_delta2 g = customers_delta2 g'"
    by (simp add: customers_delta2_def i d upt_conv_Cons
        built_customer_same [OF at] customer_delta2_update_same [OF at])
qed

lemma products_same:
  assumes "same_draws 0 264 g g'"
  shows "products_initial g = products_initial g'"
    and "products_delta1 g = products_delta1 g'"
    and "products_delta2 g = products_delta2 g'"
proof -
  note at = same_draws_advance [OF assms]
  note first = same_draws_prefix [OF assms]
  show i: "products_initial g = products_initial g'"
    by (simp add: products_initial_def upt_conv_Cons
        built_product_same [OF at] built_product_same [OF first])
  show d: "products_delta1 g = products_delta1 g'"
    by (simp add: products_delta1_def i upt_conv_Cons
        built_product_same [OF at] product_delta1_update_same [OF at])
  show "products_delta2 g = products_delta2 g'"
    by (simp add: products_delta2_def i d upt_conv_Cons
        built_product_same [OF at] product_delta2_update_same [OF at])
qed

text \<open>The whole program takes 539 draws from the one source.\<close>

lemma main_draws: "\<exists>w'. main w = Inr w' \<and> rand w' = advance 539 (rand w)"
proof -
  obtain ob n g fs where w: "w = \<lparr>objs = ob, next_addr = n, rand = g, files = fs\<rparr>"
    by (cases w) simp
  obtain ob1 where a:
    "generate_customers_with_timestamp \<lparr>objs = ob, next_addr = n, rand = g, files = fs\<rparr> =
     Inr \<lparr>objs = ob1, next_addr = n + 28, rand = advance 275 g, files = customers_written g fs\<rparr>"
    using generate_customers_with_timestamp_files by blast
  obtain ob2 where b:
    "generate_products_without_timestamp
       \<lparr>objs = ob1, next_addr = n + 28, rand = advance 275 g, files = customers_written g fs\<rparr> =
     Inr \<lparr>objs = ob2, next_addr = n + 28 + 34, rand = advance 264 (advance 275 g),
          files = products_written (advance 275 g) (customers_written g fs)\<rparr>"
    using generate_products_without_timestamp_files by blast
  show ?thesis
    unfolding w main_def a bindE_Inr b by simp
qed

text \<open>
  Claim C6. Two runs whose sources give the same 539 draws, as two runs from the same
  seed do, leave the same text in each of the six files, whatever files they find and
  whatever their sources give afterwards. The draws are taken from the one source in the
  order of the program: the customer files are a function of the draws 0 to 274, the
  product files of the draws 275 to 538, and the program leaves the source 539 draws on.
\<close>

theorem same_seed_same_files:
  "(same_draws 0 539 g g' \<longrightarrow>
      (\<exists>fs1 fs2. run g fs = Inr fs1 \<and> run g' fs' = Inr fs2 \<and>
         map fs1 output_files = map fs2 output_files \<and> None \<notin> set (map fs1 output_files))) \<and>
   (same_draws 0 275 g g' \<longrightarrow>
      (\<exists>fs1 fs2. run g fs = Inr fs1 \<and> run g' fs' = Inr fs2 \<and>
         map fs1 customer_files = map fs2 customer_files)) \<and>
   (same_draws 275 539 g g' \<longrightarrow>
      (\<exists>fs1 fs2. run g fs = Inr fs1 \<and> run g' fs' = Inr fs2 \<and>
         map fs1 product_files = map fs2 product_files)) \<and>
   (\<exists>w'. main w = Inr w' \<and> rand w' = advance 539 (rand w))"
proof (intro conjI impI)
  assume "same_draws 0 275 g g'"
  then show "\<exists>fs1 fs2. run g fs = Inr fs1 \<and> run g' fs' = Inr fs2 \<and>
         map fs1 customer_files = map fs2 customer_files"
    by (simp add: run_written customer_files_def written_customers customers_same)
next
  assume "same_draws 275 539 g g'"
  then have "same_draws 0 264 (advance 275 g) (advance 275 g')"
    by (rule same_draws_advance) simp_all
  then show "\<exists>fs1 fs2. run g fs = Inr fs1 \<and> run g' fs' = Inr fs2 \<and>
         map fs1 product_files = map fs2 product_files"
    by (simp add: run_written product_files_def written_products products_same)
next
  assume all: "same_draws 0 539 g g'"
  then have "same_draws 0 275 g g'"
    by (rule same_draws_prefix) simp_all
  moreover from all have "same_draws 0 264 (advance 275 g) (advance 275 g')"
    by (rule same_draws_advance) simp_all
  ultimately show "\<exists>fs1 fs2. run g fs = Inr fs1 \<and> run g' fs' = Inr fs2 \<and>
         map fs1 output_files = map fs2 output_files \<and> None \<notin> set (map fs1 output_files)"
    by (simp add: run_written output_files_def written_customers written_products
        customers_same products_same)
next
  show "\<exists>w'. main w = Inr w' \<and> rand w' = advance 539 (rand w)"
    by (rule main_draws)
qed

theorem same_seed_same_files_witness:
  "(\<exists>fs1 fs2. run counting_source Map.empty = Inr fs1 \<and>
      run \<lparr>draws = (\<lambda>k. k - 7), pos = 7\<rparr> [''notes.txt'' \<mapsto> ''x''] = Inr fs2 \<and>
      map fs1 output_files = map fs2 output_files \<and> None \<notin> set (map fs1 output_files)) \<and>
   (\<exists>fs1 fs2. run counting_source Map.empty = Inr fs1 \<and>
      run \<lparr>draws = (\<lambda>k. k - 7), pos = 7\<rparr> [''notes.txt'' \<mapsto> ''x''] = Inr fs2 \<and>
      map fs1 customer_files = map fs2 customer_files) \<and>
   (\<exists>fs1 fs2. run counting_source Map.empty = Inr fs1 \<and>
      run \<lparr>draws = (\<lambda>k. k - 7), pos = 7\<rparr> [''notes.txt'' \<mapsto> ''x''] = Inr fs2 \<and>
      map fs1 product_files = map fs2 product_files) \<and>
   (\<exists>w'. main \<lparr>objs = (\<lambda>a. []), next_addr = 0, rand = counting_source, files = Map.empty\<rparr> =
           Inr w' \<and>
         rand w' = advance 539 counting_source)"
proof -
  have "same_draws lo hi counting_source \<lparr>draws = (\<lambda>k. k - 7), pos = 7\<rparr>" for lo hi
    by (simp add: same_draws_def counting_source_def)
  then show ?thesis
    using same_seed_same_files [of counting_source "\<lparr>draws = (\<lambda>k. k - 7), pos = 7\<rparr>"
        Map.empty "[''notes.txt'' \<mapsto> ''x'']"
        "\<lparr>objs = (\<lambda>a. []), next_addr = 0, rand = counting_source, files = Map.empty\<rparr>"]
    by simp
qed

section \<open>The contract of the CSV writer\<close>

text \<open>
  A dictionary has each key once; for such a dictionary the row built from its own keys
  is the list of its values.
\<close>

lemma row_of_distinct: "distinct (map fst d) \<Longrightarrow> row_of (map fst d) d = map snd d"
proof (induction d)
  case Nil
  then show ?case by (simp add: row_of_def)
next
  case (Cons p d)
  then have fresh: "fst p \<notin> set (map fst d)" and ih: "row_of (map fst d) d = map snd d"
    by auto
  have "map (\<lambda>k. case map_of (p # d) k of Some v \<Rightarrow> v | None \<Rightarrow> StrV []) (map fst d) =
        map (\<lambda>k. case map_of d k of Some v \<Rightarrow> v | None \<Rightarrow> StrV []) (map fst d)"
    using fresh by (intro map_cong [OF refl]) (cases p, auto)
  with ih show ?case
    by (cases p) (simp add: row_of_def)
qed

text \<open>
  Claim C8. For a non-empty sequence of records with the keys of the first one, in the
  same order, \<open>write_csv\<close> writes the keys of the first record as the header and then one
  row per record, in the order of the sequence, each row the values of the record. For the
  empty sequence the files are left as they were: nothing is created or truncated.
\<close>

theorem write_csv_contract:
  assumes "records \<noteq> []"
    and "\<forall>d \<in> set records. keys d = keys (hd records)"
    and "distinct (keys (hd records))"
  shows "write_csv filepath records fs =
           Inr (fs(filepath \<mapsto> csv_text (map StrV (keys (hd records)) # map (map snd) records))) \<and>
         write_csv filepath [] fs = Inr fs"
proof -
  have "dicts_to_lists (keys (hd records)) records = Inr (map (row_of (keys (hd records))) records)"
    using assms(2) by (intro dicts_to_lists_rows) simp
  moreover have "map (row_of (keys (hd records))) records = map (map snd) records"
  proof (rule map_cong [OF refl])
    fix d assume "d \<in> set records"
    with assms(2,3) have "keys d = keys (hd records)" "distinct (map fst d)"
      by (auto simp: keys_def)
    then show "row_of (keys (hd records)) d = map snd d"
      using row_of_distinct [of d] by (simp add: keys_def)
  qed
  ultimately show ?thesis
    using assms(1) by (simp add: write_csv_def)
qed

theorem write_csv_contract_witness:
  "write_csv ''out.csv''
     [[(''id'', IntV 1), (''name'', StrV ''a,b'')], [(''id'', IntV 2), (''name'', StrV ''c'')]]
     Map.empty =
     Inr (Map.empty(''out.csv'' \<mapsto>
       ''id,name'' @ [CHR 0x0D, CHR 0x0A] @
       ''1,'' @ [CHR 0x22] @ ''a,b'' @ [CHR 0x22, CHR 0x0D, CHR 0x0A] @
       ''2,c'' @ [CHR 0x0D, CHR 0x0A])) \<and>
   write_csv ''out.csv'' [] Map.empty = Inr Map.empty"
proof -
  let ?records =
    "[[(''id'', IntV 1), (''name'', StrV ''a,b'')], [(''id'', IntV 2), (''name'', StrV ''c'')]]"
  have h1: "?records \<noteq> []"
    by simp
  have h2: "\<forall>d \<in> set ?records. keys d = keys (hd ?records)"
    by (simp add: keys_def)
  have h3: "distinct (keys (hd ?records))"
    by (simp add: keys_def)
  show ?thesis
    using write_csv_contract [OF h1 h2 h3, of "''out.csv''" Map.empty]
    by (simp add: keys_def csv_text_def csv_line_def cell_text_def quote_field_def
        needs_quotes_def str_int_def str_nat.simps digit_char_def)
qed

section \<open>The bounds of credit limits and prices\<close>

text \<open>
  \<open>round2\<close> gives a whole number of hundredths, the floor of \<open>100 x\<close> or the next one, so
  it keeps a value between two such numbers; \<open>uniform\<close> stays between its arguments.
\<close>

lemma round2_cases:
  obtains k where "round2 x = real_of_int k / 100"
    and "k = \<lfloor>x * 100\<rfloor> \<or> (k = \<lfloor>x * 100\<rfloor> + 1 \<and> real_of_int \<lfloor>x * 100\<rfloor> < x * 100)"
proof -
  let ?f = "\<lfloor>x * 100\<rfloor>"
  let ?d = "x * 100 - real_of_int ?f"
  show thesis
  proof (cases "?d < 1 / 2 \<or> (?d = 1 / 2 \<and> even ?f)")
    case True
    then have "round2 x = real_of_int ?f / 100"
      by (auto simp: round2_def Let_def)
    then show ?thesis
      using that by blast
  next
    case False
    then have "round2 x = real_of_int (?f + 1) / 100" and "real_of_int ?f < x * 100"
      by (auto simp: round2_def Let_def)
    then show ?thesis
      using that by blast
  qed
qed

lemma round2_bounds:
  assumes "real_of_int m \<le> x * 100" and "x * 100 \<le> real_of_int n"
  shows "real_of_int m / 100 \<le> round2 x \<and> round2 x \<le> real_of_int n / 100"
proof -
  obtain k where k: "round2 x = real_of_int k / 100"
    and c: "k = \<lfloor>x * 100\<rfloor> \<or> (k = \<lfloor>x * 100\<rfloor> + 1 \<and> real_of_int \<lfloor>x * 100\<rfloor> < x * 100)"
    by (rule round2_cases)
  have lo: "m \<le> \<lfloor>x * 100\<rfloor>"
    using assms(1) by (simp add: le_floor_iff)
  have hi: "\<lfloor>x * 100\<rfloor> \<le> n"
    using assms(2) by (simp add: floor_le_iff)
  have "m \<le> k \<and> k \<le> n"
  proof (rule disjE [OF c])
    assume "k = \<lfloor>x * 100\<rfloor>"
    with lo hi show ?thesis by simp
  next
    assume a: "k = \<lfloor>x * 100\<rfloor> + 1 \<and> real_of_int \<lfloor>x * 100\<rfloor> < x * 100"
    then have "real_of_int \<lfloor>x * 100\<rfloor> < real_of_int n"
      using assms(2) by linarith
    then have "\<lfloor>x * 100\<rfloor> < n" by simp
    with a lo show ?thesis by simp
  qed
  then show ?thesis
    unfolding k by (simp add: divide_le_cancel)
qed

lemma uniform_bounds:
  assumes "a \<le> b"
  shows "a \<le> fst (uniform a b g) \<and> fst (uniform a b g) \<le> b"
proof -
  define u where "u = real (draws g (pos g) mod 2 ^ 53) / 2 ^ 53"
  have u: "0 \<le> u" "u \<le> 1"
    by (simp_all add: u_def divide_le_eq_1)
  have "0 \<le> (b - a) * u"
    using assms u by simp
  moreover have "(b - a) * u \<le> (b - a) * 1"
    using assms u by (intro mult_left_mono) simp_all
  moreover have "fst (uniform a b g) = a + (b - a) * u"
    by (simp add: uniform_def random_unit_def split_def u_def)
  ultimately show ?thesis
    by simp
qed

lemma built_credit_between:
  "float_between 1000 50000 (row_of customer_columns (built_customer hi t i g) ! 7)"
proof -
  let ?x = "fst (uniform 1000 50000 (advance 8 g))"
  have "1000 \<le> ?x \<and> ?x \<le> 50000"
    by (rule uniform_bounds) simp
  then have "real_of_int 100000 / 100 \<le> round2 ?x \<and> round2 ?x \<le> real_of_int 5000000 / 100"
    by (intro round2_bounds) simp_all
  then show ?thesis
    by (simp add: row_of_def customer_columns_def credit_limit_built_customer float_between_def)
qed

lemma delta2_credit_unchanged:
  "row_of customer_columns (customer_delta2_update t d g) ! 7 = row_of customer_columns d ! 7"
  by (simp add: row_of_def customer_columns_def customer_delta2_update_def map_of_setitem)

lemma delta1_credit_between:
  "float_between 1200 60000
     (row_of customer_columns (customer_delta1_update t (built_customer hi t' i g') g) ! 7)"
proof -
  let ?c = "round2 (fst (uniform 1000 50000 (advance 8 g')))"
  have "float_between 1000 50000 (FloatV ?c)"
    using built_credit_between [of hi t' i g']
    by (simp add: row_of_def customer_columns_def credit_limit_built_customer)
  then have "1000 \<le> ?c" "?c \<le> 50000"
    by (simp_all add: float_between_def)
  then have "real_of_int 120000 / 100 \<le> round2 (?c * (12 / 10)) \<and>
             round2 (?c * (12 / 10)) \<le> real_of_int 6000000 / 100"
    by (intro round2_bounds) simp_all
  then show ?thesis
    by (simp add: row_of_def customer_columns_def customer_delta1_update_def map_of_setitem
        float_field_def credit_limit_built_customer float_between_def)
qed

lemma built_price_between:
  "float_between (999 / 100) (99999 / 100) (row_of product_columns (built_product i g) ! 3)"
proof -
  let ?x = "fst (uniform (999 / 100) (99999 / 100) (advance 3 g))"
  have "999 / 100 \<le> ?x \<and> ?x \<le> 99999 / 100"
    by (rule uniform_bounds) simp
  then have "real_of_int 999 / 100 \<le> round2 ?x \<and> round2 ?x \<le> real_of_int 99999 / 100"
    by (intro round2_bounds) simp_all
  then show ?thesis
    by (simp add: row_of_def product_columns_def price_built_product float_between_def)
qed

text \<open>Evaluating one record of a run at a given random source, in four steps.\<close>

lemmas record_evaluation_1 =
  customers_initial_def customers_delta1_def customers_delta2_def upt_conv_Cons row_of_def
  customer_columns_def customer_delta1_update_def customer_delta2_update_def map_of_setitem
  float_field_def built_customer_def generate_customer_record_def Let_def split_def base_time_def

lemmas record_evaluation_2 =
  choice_def randint_def randbelow_def uniform_def random_unit_def advance_def
  constant_source_def counting_source_def generate_email_def generate_phone_def Let_def split_def

lemmas record_evaluation_3 =
  FIRST_NAMES_def LAST_NAMES_def CITIES_def STATES_def lower_def lower_char_def round2_def
  plus_hours_def plus_minutes_def

lemmas record_evaluation_4 =
  str_int_def str_nat.simps digit_char_def format_timestamp_def zero_pad_def

lemma projr_run:
  "projr (run g fs) = products_written (advance 275 g) (customers_written g fs)"
  by (simp add: run_written)

text \<open>
  Whatever the source gives, every credit limit that a builder wrote lies within
  [1000, 50000], every price of the initial product file within [9.99, 999.99], and the
  three modified rows of the first delta hold \<open>round(1.2 * v, 2)\<close> for the credit limit \<open>v\<close>
  that customers 3, 7 and 15 were built with, a value within [1200, 60000].
\<close>

lemma customers_initial_credit_between:
  "list_all (\<lambda>r. float_between 1000 50000 (r ! 7))
     (map (row_of customer_columns) (customers_initial g))"
  by (simp add: customers_initial_def list_all_iff built_credit_between)

lemma customers_delta1_new_credit_between:
  "list_all (\<lambda>r. float_between 1000 50000 (r ! 7))
     (take 5 (map (row_of customer_columns) (customers_delta1 g)))"
  by (simp add: customers_delta1_def take_map list_all_iff built_credit_between)

lemma customers_delta2_credit_between:
  "list_all (\<lambda>r. float_between 1000 50000 (r ! 7))
     (map (row_of customer_columns) (customers_delta2 g))"
  by (simp add: customers_delta2_def customers_delta1_def customers_initial_def upt_conv_Cons
      delta2_credit_unchanged built_credit_between)

lemma products_initial_price_between:
  "list_all (\<lambda>r. float_between (999 / 100) (99999 / 100) (r ! 3))
     (map (row_of product_columns) (products_initial g))"
  by (simp add: products_initial_def list_all_iff built_price_between)

lemma customers_delta1_modified_credit:
  "map (\<lambda>r. r ! 7) (drop 5 (map (row_of customer_columns) (customers_delta1 g))) =
     [FloatV (round2 (round2 (fst (uniform 1000 50000 (advance 26 g))) * (12 / 10))),
      FloatV (round2 (round2 (fst (uniform 1000 50000 (advance 62 g))) * (12 / 10))),
      FloatV (round2 (round2 (fst (uniform 1000 50000 (advance 134 g))) * (12 / 10)))]"
  by (simp add: customers_delta1_def customers_initial_def upt_conv_Cons row_of_def
      customer_columns_def customer_delta1_update_def map_of_setitem float_field_def
      credit_limit_built_customer)

text \<open>
  After \<open>random.seed(42)\<close> customers 3, 7 and 15 are built with 29874.02, 3245.39 and
  39811.89, and the first delta writes them with 35848.82, 3894.47 and 47774.27.
\<close>

lemma seed42_unit_draws:
  "fst (uniform 1000 50000 (advance 26 seed42_source)) = 1000 + 49000 * (5307633428651526 / 2 ^ 53)"
  "fst (uniform 1000 50000 (advance 62 seed42_source)) = 1000 + 49000 * (412749354312246 / 2 ^ 53)"
  "fst (uniform 1000 50000 (advance 134 seed42_source)) = 1000 + 49000 * (7134416660385809 / 2 ^ 53)"
  by (simp_all add: uniform_def random_unit_def split_def advance_def seed42_source_def
      seed42_draws_def)

lemma seed42_modified_credit:
  "map (\<lambda>r. r ! 7) (drop 5 (map (row_of customer_columns) (customers_delta1 seed42_source))) =
     [FloatV (3584882 / 100), FloatV (389447 / 100), FloatV (4777427 / 100)]"
  unfolding customers_delta1_modified_credit seed42_unit_draws
  by (simp add: round2_def)


text \<open>
  Claim C2. In the run of the program, seeded with 42, every credit limit of the three
  customer files lies within [1000, 50000], the three that the first delta multiplied by
  1.2 included, and every price of the initial product file lies within [9.99, 999.99].
\<close>

theorem seed42_credit_limits_and_prices:
  "\<exists>fs' c0 c1 c2 p0.
     run seed42_source fs = Inr fs' \<and>
     csv_table fs' customers_initial_csv customer_columns c0 \<and>
     csv_table fs' customers_delta1_csv customer_columns c1 \<and>
     csv_table fs' customers_delta2_csv customer_columns c2 \<and>
     csv_table fs' products_initial_csv product_columns p0 \<and>
     customer_columns ! 7 = ''credit_limit'' \<and> product_columns ! 3 = ''price'' \<and>
     list_all (\<lambda>r. float_between 1000 50000 (r ! 7)) (c0 @ c1 @ c2) \<and>
     map (\<lambda>r. r ! 7) (drop 5 c1) =
       [FloatV (3584882 / 100), FloatV (389447 / 100), FloatV (4777427 / 100)] \<and>
     list_all (\<lambda>r. float_between (999 / 100) (99999 / 100) (r ! 3)) p0"
proof (intro exI conjI)
  let ?g = seed42_source
  let ?fs = "products_written (advance 275 ?g) (customers_written ?g fs)"
  let ?c0 = "map (row_of customer_columns) (customers_initial ?g)"
  let ?c1 = "map (row_of customer_columns) (customers_delta1 ?g)"
  let ?c2 = "map (row_of customer_columns) (customers_delta2 ?g)"
  let ?p0 = "map (row_of product_columns) (products_initial (advance 275 ?g))"
  show "run ?g fs = Inr ?fs"
    by (rule run_written)
  show "csv_table ?fs customers_initial_csv customer_columns ?c0"
    by (simp add: csv_table_def written_customers)
  show "csv_table ?fs customers_delta1_csv customer_columns ?c1"
    by (simp add: csv_table_def written_customers)
  show "csv_table ?fs customers_delta2_csv customer_columns ?c2"
    by (simp add: csv_table_def written_customers)
  show "csv_table ?fs products_initial_csv product_columns ?p0"
    by (simp add: csv_table_def written_products)
  show "customer_columns ! 7 = ''credit_limit''"
    by (simp add: customer_columns_def)
  show "product_columns ! 3 = ''price''"
    by (simp add: product_columns_def)
  show modified: "map (\<lambda>r. r ! 7) (drop 5 ?c1) =
      [FloatV (3584882 / 100), FloatV (389447 / 100), FloatV (4777427 / 100)]"
    by (rule seed42_modified_credit)
  have "list_all (float_between 1000 50000) (map (\<lambda>r. r ! 7) (drop 5 ?c1))"
    unfolding modified by (simp add: float_between_def)
  then have "list_all (\<lambda>r. float_between 1000 50000 (r ! 7)) (drop 5 ?c1)"
    by (simp add: list_all_iff)
  with customers_delta1_new_credit_between [of ?g]
  have "list_all (\<lambda>r. float_between 1000 50000 (r ! 7)) (take 5 ?c1 @ drop 5 ?c1)"
    unfolding list_all_append by (rule conjI)
  then have "list_all (\<lambda>r. float_between 1000 50000 (r ! 7)) ?c1"
    by (simp only: append_take_drop_id)
  then show "list_all (\<lambda>r. float_between 1000 50000 (r ! 7)) (?c0 @ ?c1 @ ?c2)"
    using customers_initial_credit_between [of ?g] customers_delta2_credit_between [of ?g]
    by simp
  show "list_all (\<lambda>r. float_between (999 / 100) (99999 / 100) (r ! 3)) ?p0"
    by (rule products_initial_price_between)
qed

text \<open>
  The bound of the modified rows is a fact of the draws of the seed, not of the code,
  which multiplies by 1.2 and does not clamp: at a source whose unit draws are all 7/8
  customer 3 is built with 43875.0 and the first delta writes 52650.0.
\<close>

lemma credit_limit_above_50000_at_other_draws:
  "projr (run (constant_source (7 * 2 ^ 50)) Map.empty) customers_delta1_csv =
     Some (csv_text (map StrV customer_columns #
                     map (row_of customer_columns) (customers_delta1 (constant_source (7 * 2 ^ 50))))) \<and>
   row_of customer_columns (customers_delta1 (constant_source (7 * 2 ^ 50)) ! 5) =
     [IntV 3, StrV ''Mark'', StrV ''Lewis'', StrV ''mark.lewis3@hotmail.com'',
      StrV ''(968) 968-3368'', StrV ''Austin'', StrV ''TX'', FloatV 52650,
      StrV ''2025-01-01 12:07:00''] \<and>
   \<not> float_between 1000 50000 (FloatV 52650)"
proof (intro conjI)
  show "projr (run (constant_source (7 * 2 ^ 50)) Map.empty) customers_delta1_csv =
     Some (csv_text (map StrV customer_columns #
                     map (row_of customer_columns) (customers_delta1 (constant_source (7 * 2 ^ 50)))))"
    by (simp add: projr_run written_customers)
  show "row_of customer_columns (customers_delta1 (constant_source (7 * 2 ^ 50)) ! 5) =
     [IntV 3, StrV ''Mark'', StrV ''Lewis'', StrV ''mark.lewis3@hotmail.com'',
      StrV ''(968) 968-3368'', StrV ''Austin'', StrV ''TX'', FloatV 52650,
      StrV ''2025-01-01 12:07:00'']"
    apply (simp add: record_evaluation_1)
    apply (simp add: record_evaluation_2)
    apply (simp add: record_evaluation_3)
    apply (simp add: record_evaluation_4)
    done
  show "\<not> float_between 1000 50000 (FloatV 52650)"
    by (simp add: float_between_def)
qed

section \<open>The decimals of a serialised value\<close>

lemma digit_char_digit: "n < 10 \<Longrightarrow> digit_char n \<in> set ''0123456789''"
  unfolding digit_char_def by (rule nth_mem) simp

lemma str_nat_digits: "set (str_nat n) \<subseteq> set ''0123456789''"
proof (induction n rule: str_nat.induct)
  case (1 n)
  show ?case
  proof (cases "n < 10")
    case True
    then show ?thesis
      using digit_char_digit [of n] by (subst str_nat.simps) simp
  next
    case False
    moreover have "digit_char (n mod 10) \<in> set ''0123456789''"
      by (rule digit_char_digit) simp
    ultimately show ?thesis
      using 1 by (subst str_nat.simps) simp
  qed
qed

lemma str_nat_no_point: "CHR ''.'' \<notin> set (str_nat n)"
  using str_nat_digits [of n] by auto

text \<open>
  A value that \<open>round(x, 2)\<close> returns for a non-negative \<open>x\<close> is written with one or two
  digits after the decimal point.
\<close>

lemma round2_serialised:
  assumes "0 \<le> x"
  shows "\<exists>k whole frac.
           round2 x = real_of_int k / 100 \<and>
           cell_text (FloatV (round2 x)) = whole @ ''.'' @ frac \<and>
           CHR ''.'' \<notin> set whole \<and>
           length frac = (if k mod 10 = 0 then 1 else 2)"
proof -
  obtain k where k: "round2 x = real_of_int k / 100"
    and c: "k = \<lfloor>x * 100\<rfloor> \<or> (k = \<lfloor>x * 100\<rfloor> + 1 \<and> real_of_int \<lfloor>x * 100\<rfloor> < x * 100)"
    by (rule round2_cases)
  have "0 \<le> \<lfloor>x * 100\<rfloor>"
    using assms by simp
  with c have k0: "0 \<le> k"
    by auto
  then have cents: "\<lfloor>round2 x * 100\<rfloor> = k" and neg: "\<not> round2 x < 0"
    by (simp_all add: k)
  then have pos: "\<bar>round2 x\<bar> = round2 x"
    by simp
  have m: "nat k mod 10 = 0 \<longleftrightarrow> k mod 10 = 0"
    using k0 by (metis int_nat_eq nat_0 nat_int of_nat_0 of_nat_mod of_nat_numeral)
  let ?frac = "if nat k mod 10 = 0 then [digit_char (nat k mod 100 div 10)]
               else [digit_char (nat k mod 100 div 10), digit_char (nat k mod 10)]"
  have "cell_text (FloatV (round2 x)) = str_nat (nat k div 100) @ ''.'' @ ?frac"
    using neg by (simp add: cell_text_def float_repr_def Let_def pos cents)
  moreover have "length ?frac = (if k mod 10 = 0 then 1 else 2)"
    using m by simp
  ultimately show ?thesis
    using k str_nat_no_point by blast
qed

lemma round2_written_decimals:
  assumes "0 \<le> x"
  shows "written_decimals (FloatV (round2 x))"
  using round2_serialised [OF assms] unfolding written_decimals_def by auto

lemma round2_nonneg: "0 \<le> x \<Longrightarrow> 0 \<le> round2 x"
  using round2_bounds [of 0 x "\<lceil>x * 100\<rceil>"] by simp

lemma uniform_nonneg: "0 \<le> a \<Longrightarrow> a \<le> b \<Longrightarrow> 0 \<le> fst (uniform a b g)"
  using uniform_bounds [of a b g] by simp

lemma built_credit_written:
  "written_decimals (row_of customer_columns (built_customer hi t i g) ! 7)"
  by (simp add: row_of_def customer_columns_def credit_limit_built_customer
      round2_written_decimals uniform_nonneg)

lemma delta1_credit_written:
  "written_decimals
     (row_of customer_columns (customer_delta1_update t (built_customer hi t' i g') g) ! 7)"
  by (simp add: row_of_def customer_columns_def customer_delta1_update_def map_of_setitem
      float_field_def credit_limit_built_customer round2_written_decimals round2_nonneg
      uniform_nonneg)

lemma built_price_written:
  "written_decimals (row_of product_columns (built_product i g) ! 3)"
  by (simp add: row_of_def product_columns_def price_built_product
      round2_written_decimals uniform_nonneg)

lemma delta1_price_written:
  "written_decimals (row_of product_columns (product_delta1_update (built_product i g') g) ! 3)"
  by (simp add: row_of_def product_columns_def product_delta1_update_def map_of_setitem
      float_field_def price_built_product round2_written_decimals round2_nonneg
      uniform_nonneg)

lemma delta2_price_written:
  "written_decimals (row_of product_columns (product_delta2_update (built_product i g') g) ! 3)"
  by (simp add: row_of_def product_columns_def product_delta2_update_def map_of_setitem
      float_field_def price_built_product round2_written_decimals round2_nonneg
      uniform_nonneg)

lemmas written_simps =
  built_credit_written delta1_credit_written delta2_credit_unchanged
  built_price_written delta1_price_written delta2_price_written

text \<open>
  Claim C7, as the code has it. Every credit limit of the three customer files and every
  price of the three product files is written with one or two digits after the decimal
  point: two when the second digit is not zero, one when it is.
\<close>

theorem written_credit_limits_and_prices:
  "\<exists>fs' c0 c1 c2 p0 p1 p2.
     run g fs = Inr fs' \<and>
     csv_table fs' customers_initial_csv customer_columns c0 \<and>
     csv_table fs' customers_delta1_csv customer_columns c1 \<and>
     csv_table fs' customers_delta2_csv customer_columns c2 \<and>
     csv_table fs' products_initial_csv product_columns p0 \<and>
     csv_table fs' products_delta1_csv product_columns p1 \<and>
     csv_table fs' products_delta2_csv product_columns p2 \<and>
     customer_columns ! 7 = ''credit_limit'' \<and> product_columns ! 3 = ''price'' \<and>
     list_all (\<lambda>r. written_decimals (r ! 7)) (c0 @ c1 @ c2) \<and>
     list_all (\<lambda>r. written_decimals (r ! 3)) (p0 @ p1 @ p2)"
proof (intro exI conjI)
  let ?fs = "products_written (advance 275 g) (customers_written g fs)"
  let ?c0 = "map (row_of customer_columns) (customers_initial g)"
  let ?c1 = "map (row_of customer_columns) (customers_delta1 g)"
  let ?c2 = "map (row_of customer_columns) (customers_delta2 g)"
  let ?p0 = "map (row_of product_columns) (products_initial (advance 275 g))"
  let ?p1 = "map (row_of product_columns) (products_delta1 (advance 275 g))"
  let ?p2 = "map (row_of product_columns) (products_delta2 (advance 275 g))"
  show "run g fs = Inr ?fs"
    by (rule run_written)
  show "csv_table ?fs customers_initial_csv customer_columns ?c0"
    by (simp add: csv_table_def written_customers)
  show "csv_table ?fs customers_delta1_csv customer_columns ?c1"
    by (simp add: csv_table_def written_customers)
  show "csv_table ?fs customers_delta2_csv customer_columns ?c2"
    by (simp add: csv_table_def written_customers)
  show "csv_table ?fs products_initial_csv product_columns ?p0"
    by (simp add: csv_table_def written_products)
  show "csv_table ?fs products_delta1_csv product_columns ?p1"
    by (simp add: csv_table_def written_products)
  show "csv_table ?fs products_delta2_csv product_columns ?p2"
    by (simp add: csv_table_def written_products)
  show "customer_columns ! 7 = ''credit_limit''"
    by (simp add: customer_columns_def)
  show "product_columns ! 3 = ''price''"
    by (simp add: product_columns_def)
  have "list_all (\<lambda>r. written_decimals (r ! 7)) ?c0"
    by (simp add: customers_initial_def list_all_iff written_simps)
  moreover have "list_all (\<lambda>r. written_decimals (r ! 7)) ?c1"
    by (simp add: customers_delta1_def customers_initial_def upt_conv_Cons written_simps)
  moreover have "list_all (\<lambda>r. written_decimals (r ! 7)) ?c2"
    by (simp add: customers_delta2_def customers_delta1_def customers_initial_def upt_conv_Cons
        written_simps)
  ultimately show "list_all (\<lambda>r. written_decimals (r ! 7)) (?c0 @ ?c1 @ ?c2)"
    by simp
  have "list_all (\<lambda>r. written_decimals (r ! 3)) ?p0"
    by (simp add: products_initial_def list_all_iff written_simps)
  moreover have "list_all (\<lambda>r. written_decimals (r ! 3)) ?p1"
    by (simp add: products_delta1_def products_initial_def upt_conv_Cons written_simps)
  moreover have "list_all (\<lambda>r. written_decimals (r ! 3)) ?p2"
    by (simp add: products_delta2_def products_delta1_def products_initial_def upt_conv_Cons
        written_simps)
  ultimately show "list_all (\<lambda>r. written_decimals (r ! 3)) (?p0 @ ?p1 @ ?p2)"
    by simp
qed

text \<open>
  Claim C7 as stated fails. When every draw is \<open>7 * 2\<^sup>5\<^sup>0\<close> the first row of the initial
  customer file holds the credit limit 43875.0, with one digit after the point.
\<close>

theorem one_decimal_digit_counterexample:
  "projr (run (constant_source (7 * 2 ^ 50)) Map.empty) customers_initial_csv =
     Some (csv_text (map StrV customer_columns #
                     map (row_of customer_columns) (customers_initial (constant_source (7 * 2 ^ 50))))) \<and>
   csv_line (row_of customer_columns (customers_initial (constant_source (7 * 2 ^ 50)) ! 0)) =
     ''1,Mark,Lewis,mark.lewis1@hotmail.com,(968) 968-3368,Austin,TX,43875.0,2025-01-01 10:37:00'' @
     [CHR 0x0D, CHR 0x0A]"
proof (intro conjI)
  show "projr (run (constant_source (7 * 2 ^ 50)) Map.empty) customers_initial_csv =
     Some (csv_text (map StrV customer_columns #
                     map (row_of customer_columns) (customers_initial (constant_source (7 * 2 ^ 50)))))"
    by (simp add: projr_run written_customers)
  have "row_of customer_columns (customers_initial (constant_source (7 * 2 ^ 50)) ! 0) =
     [IntV 1, StrV ''Mark'', StrV ''Lewis'', StrV ''mark.lewis1@hotmail.com'',
      StrV ''(968) 968-3368'', StrV ''Austin'', StrV ''TX'', FloatV 43875,
      StrV ''2025-01-01 10:37:00'']"
    apply (simp add: record_evaluation_1)
    apply (simp add: record_evaluation_2)
    apply (simp add: record_evaluation_3)
    apply (simp add: record_evaluation_4)
    done
  then show "csv_line (row_of customer_columns (customers_initial (constant_source (7 * 2 ^ 50)) ! 0)) =
     ''1,Mark,Lewis,mark.lewis1@hotmail.com,(968) 968-3368,Austin,TX,43875.0,2025-01-01 10:37:00'' @
     [CHR 0x0D, CHR 0x0A]"
    by (simp add: csv_line_def cell_text_def quote_field_def needs_quotes_def float_repr_def
        str_int_def str_nat.simps digit_char_def)
qed

section \<open>City and state\<close>

text \<open>
  The builder takes the city and the state at one index of the two lists, and the
  modification of the first delta changes neither.
\<close>

lemma length_CITIES: "length CITIES = 18"
  by (simp add: CITIES_def)

lemma built_customer_aligned:
  "\<exists>j<length CITIES.
     row_of customer_columns (built_customer hi t i g) ! 5 = StrV (CITIES ! j) \<and>
     row_of customer_columns (built_customer hi t i g) ! 6 = StrV (STATES ! j)"
  by (rule exI [of _ "nat (fst (randint 0 (int (length CITIES) - 1) (advance 3 g)))"])
    (simp add: row_of_def customer_columns_def built_customer_def generate_customer_record_def
      split_def Let_def randint_def randbelow_def length_CITIES del: One_nat_def)

lemma customer_delta1_update_city_state:
  "row_of customer_columns (customer_delta1_update t d g) ! 5 = row_of customer_columns d ! 5 \<and>
   row_of customer_columns (customer_delta1_update t d g) ! 6 = row_of customer_columns d ! 6"
  by (simp add: row_of_def customer_columns_def customer_delta1_update_def map_of_setitem)

text \<open>
  Claim C1 fails in the second delta, whose modification replaces the city and leaves the
  state. When the \<open>k\<close>-th draw is \<open>k\<close>, customer 1 is built in Houston, TX, and the second
  delta writes the customer with the city Phoenix and the state TX, a pair that the two
  lists give at no index.
\<close>

theorem delta2_city_without_state:
  "projr (run counting_source Map.empty) customers_delta2_csv =
     Some (csv_text (map StrV customer_columns #
                     map (row_of customer_columns) (customers_delta2 counting_source))) \<and>
   row_of customer_columns (customers_initial counting_source ! 0) =
     [IntV 1, StrV ''Mary'', StrV ''Williams'', StrV ''mary.williams1@company.com'',
      StrV ''(205) 206-1007'', StrV ''Houston'', StrV ''TX'', FloatV 1000,
      StrV ''2025-01-01 10:00:00''] \<and>
   row_of customer_columns (customers_delta2 counting_source ! 3) =
     [IntV 1, StrV ''Mary'', StrV ''Williams'', StrV ''mary.williams1@company.com'',
      StrV ''(457) 458-1259'', StrV ''Phoenix'', StrV ''TX'', FloatV 1000,
      StrV ''2025-01-01 14:07:00''] \<and>
   (''Houston'', ''TX'') \<in> set (zip CITIES STATES) \<and>
   (''Phoenix'', ''TX'') \<notin> set (zip CITIES STATES)"
proof (intro conjI)
  show "projr (run counting_source Map.empty) customers_delta2_csv =
     Some (csv_text (map StrV customer_columns #
                     map (row_of customer_columns) (customers_delta2 counting_source)))"
    by (simp add: projr_run written_customers)
  show "row_of customer_columns (customers_initial counting_source ! 0) =
     [IntV 1, StrV ''Mary'', StrV ''Williams'', StrV ''mary.williams1@company.com'',
      StrV ''(205) 206-1007'', StrV ''Houston'', StrV ''TX'', FloatV 1000,
      StrV ''2025-01-01 10:00:00'']"
    apply (simp add: record_evaluation_1)
    apply (simp add: record_evaluation_2)
    apply (simp add: record_evaluation_3)
    apply (simp add: record_evaluation_4)
    done
  show "row_of customer_columns (customers_delta2 counting_source ! 3) =
     [IntV 1, StrV ''Mary'', StrV ''Williams'', StrV ''mary.williams1@company.com'',
      StrV ''(457) 458-1259'', StrV ''Phoenix'', StrV ''TX'', FloatV 1000,
      StrV ''2025-01-01 14:07:00'']"
    apply (simp add: record_evaluation_1)
    apply (simp add: record_evaluation_2)
    apply (simp add: record_evaluation_3)
    apply (simp add: record_evaluation_4)
    done
  show "(''Houston'', ''TX'') \<in> set (zip CITIES STATES)"
    by (simp add: CITIES_def STATES_def)
  show "(''Phoenix'', ''TX'') \<notin> set (zip CITIES STATES)"
    by (simp add: CITIES_def STATES_def)
qed

section \<open>The run seeded with 42\<close>

text \<open>
  In the run of the program, seeded with 42, customer 10 is built in Philadelphia, PA and
  the second delta writes the customer with the city Houston and the state PA.
\<close>

lemma seed42_delta2_city_state:
  "row_of customer_columns (customers_delta2 seed42_source ! 4) ! 0 = IntV 10 \<and>
   row_of customer_columns (customers_delta2 seed42_source ! 4) ! 5 = StrV ''Houston'' \<and>
   row_of customer_columns (customers_delta2 seed42_source ! 4) ! 6 = StrV ''PA'' \<and>
   (''Houston'', ''PA'') \<notin> set (zip CITIES STATES)"
proof (intro conjI)
  show "row_of customer_columns (customers_delta2 seed42_source ! 4) ! 0 = IntV 10"
    by (simp add: customers_delta2_def customers_initial_def upt_conv_Cons row_of_def
        customer_columns_def customer_delta2_update_def map_of_setitem built_customer_def
        generate_customer_record_def split_def Let_def)
  show "row_of customer_columns (customers_delta2 seed42_source ! 4) ! 5 = StrV ''Houston''"
    apply (simp add: customers_delta2_def customers_initial_def upt_conv_Cons row_of_def
        customer_columns_def customer_delta2_update_def map_of_setitem)
    apply (simp add: choice_def randbelow_def advance_def seed42_source_def seed42_draws_def
        split_def Let_def)
    apply (simp add: CITIES_def)
    done
  show "row_of customer_columns (customers_delta2 seed42_source ! 4) ! 6 = StrV ''PA''"
    apply (simp add: customers_delta2_def customers_initial_def upt_conv_Cons row_of_def
        customer_columns_def customer_delta2_update_def map_of_setitem built_customer_def
        generate_customer_record_def split_def Let_def)
    apply (simp add: randint_def randbelow_def advance_def seed42_source_def seed42_draws_def
        split_def Let_def)
    apply (simp add: CITIES_def STATES_def)
    done
  show "(''Houston'', ''PA'') \<notin> set (zip CITIES STATES)"
    by (simp add: CITIES_def STATES_def)
qed

text \<open>
  In the same run the initial file holds the credit limit of customer 8 as 23217.1, with
  one digit after the point.
\<close>

lemma seed42_one_decimal:
  "row_of customer_columns (customers_initial seed42_source ! 7) ! 0 = IntV 8 \<and>
   cell_text (row_of customer_columns (customers_initial seed42_source ! 7) ! 7) = ''23217.1''"
proof (intro conjI)
  show "row_of customer_columns (customers_initial seed42_source ! 7) ! 0 = IntV 8"
    by (simp add: customers_initial_def row_of_def customer_columns_def built_customer_def
        generate_customer_record_def split_def Let_def)
  have "row_of customer_columns (customers_initial seed42_source ! 7) ! 7 =
        FloatV (round2 (1000 + 49000 * (real (seed42_draws ! 71) / 2 ^ 53)))"
    by (simp add: customers_initial_def row_of_def customer_columns_def
        credit_limit_built_customer uniform_def random_unit_def split_def advance_def
        seed42_source_def seed42_draws_def)
  also have "\<dots> = FloatV (232171 / 10)"
    by (simp add: seed42_draws_def round2_def)
  finally show "cell_text (row_of customer_columns (customers_initial seed42_source ! 7) ! 7) =
      ''23217.1''"
    by (simp add: cell_text_def float_repr_def str_nat.simps digit_char_def)
qed

end
